theory Spec2Isabelle
  imports Complex_Main "HOL-Library.Char_ord" "HOL-Library.List_Lexorder"
begin

section \<open>Wardrobe Studio: the persistence layer and its callers\<close>

text \<open>
  The program keeps its records in seven IndexedDB object stores (\<open>Storage.init\<close>) and its
  preferences in \<open>localStorage\<close>. An object store with a \<open>keyPath\<close> holds at most one
  record per key and hands its records out in ascending key order (\<open>getAll\<close>); it is
  modelled as the list of its records in that order. JavaScript numbers used as
  identifiers (\<open>Date.now() + Math.random()\<close>, generated keys) are rationals: the program
  only compares them, tests them for truthiness and prints them.
\<close>

subsection \<open>Records of the object stores\<close>

text \<open>
  An item as \<open>App.processUpload\<close> creates it, with the three fields \<open>App.deleteItem\<close>
  adds. A field that may be missing from the JavaScript object is an option.
\<close>

record item =
  item_id :: rat
  imageId :: "rat option"
  category :: string
  favorite :: bool
  laundry :: bool
  dateAdded :: string
  deleted :: "bool option"
  deletedDate :: "string option"
  originalCategory :: "string option"

record image =
  image_id :: rat
  image_data :: string

record dayPlan =
  day :: string
  day_type :: string
  day_items :: "rat list"
  day_notes :: string

record outfit =
  outfit_id :: rat
  outfit_items :: "rat list"
  outfit_notes :: string
  outfit_date :: string

record customSection =
  section_id :: rat
  section_name :: string
  section_items :: "rat list"

record shoppingItem =
  shop_id :: rat
  shop_name :: string
  shop_desc :: string
  shop_price :: string
  shop_imageId :: "rat option"

subsection \<open>Object stores\<close>

definition store_get :: "('r \<Rightarrow> 'k) \<Rightarrow> 'k \<Rightarrow> 'r list \<Rightarrow> 'r option" where
  "store_get keyPath k rs = find (\<lambda>r. keyPath r = k) rs"

definition store_delete :: "('r \<Rightarrow> 'k) \<Rightarrow> 'k \<Rightarrow> 'r list \<Rightarrow> 'r list" where
  "store_delete keyPath k rs = filter (\<lambda>r. keyPath r \<noteq> k) rs"

text \<open>\<open>store.put(r)\<close>: the record replaces the one stored under its key, if any.\<close>

definition store_put :: "('r \<Rightarrow> 'k::linorder) \<Rightarrow> 'r \<Rightarrow> 'r list \<Rightarrow> 'r list" where
  "store_put keyPath r rs = insort_key keyPath r (store_delete keyPath (keyPath r) rs)"

text \<open>What every object store satisfies: ascending keys, one record per key.\<close>

definition keyed :: "('r \<Rightarrow> 'k::linorder) \<Rightarrow> 'r list \<Rightarrow> bool" where
  "keyed kp rs = (sorted (map kp rs) \<and> distinct (map kp rs))"

datatype store_name =
  Items | Images | WeeklyPlan | SavedOutfits | CustomSections | ShoppingList | Trash

datatype key = NumKey rat | StrKey string

datatype request =
    GetAll store_name
  | Put store_name key
  | Delete store_name key
  | Clear store_name

text \<open>
  The database: the seven stores, and \<open>journal\<close>, the write requests that have taken
  effect, oldest first. The journal is a history variable: no operation reads it.
\<close>

record db =
  items :: "item list"
  images :: "image list"
  weeklyPlan :: "dayPlan list"
  savedOutfits :: "outfit list"
  customSections :: "customSection list"
  shoppingList :: "shoppingItem list"
  trash :: "item list"
  journal :: "request list"

definition logged :: "request \<Rightarrow> db \<Rightarrow> db" where
  "logged r s = s\<lparr>journal := journal s @ [r]\<rparr>"

datatype error =
    InvalidDataFormat
  | TransactionError
  | NetworkError
  | WeatherApiError nat
  | BodySyntaxError
  | TypeError
  | DataError

subsection \<open>Storage: one request per call\<close>

text \<open>
  Each of these methods opens a transaction on one store and issues one request. They are
  modelled on a request that succeeds; the result of a write that the callers ignore
  (the key \<open>put\<close> returns) is left out.
\<close>

definition saveItem :: "item \<Rightarrow> db \<Rightarrow> db" where
  "saveItem it s = logged (Put Items (NumKey (item_id it))) (s\<lparr>items := store_put item_id it (items s)\<rparr>)"

definition getItem :: "rat \<Rightarrow> db \<Rightarrow> item option" where
  "getItem k s = store_get item_id k (items s)"

definition getAllItems :: "db \<Rightarrow> item list" where
  "getAllItems s = items s"

definition Storage_deleteItem :: "rat \<Rightarrow> db \<Rightarrow> db" where
  "Storage_deleteItem k s = logged (Delete Items (NumKey k)) (s\<lparr>items := store_delete item_id k (items s)\<rparr>)"

definition saveImage :: "rat \<Rightarrow> string \<Rightarrow> db \<Rightarrow> db" where
  "saveImage k base64Data s =
     logged (Put Images (NumKey k))
       (s\<lparr>images := store_put image_id \<lparr>image_id = k, image_data = base64Data\<rparr> (images s)\<rparr>)"

text \<open>\<open>request.result?.data || null\<close>: \<open>None\<close> is \<open>null\<close>, also for an empty \<open>data\<close>.\<close>

definition getImage :: "rat \<Rightarrow> db \<Rightarrow> string option" where
  "getImage k s =
     (case store_get image_id k (images s) of
        None \<Rightarrow> None
      | Some r \<Rightarrow> if image_data r \<noteq> [] then Some (image_data r) else None)"

definition deleteImage :: "rat \<Rightarrow> db \<Rightarrow> db" where
  "deleteImage k s = logged (Delete Images (NumKey k)) (s\<lparr>images := store_delete image_id k (images s)\<rparr>)"

definition saveWeeklyDay :: "dayPlan \<Rightarrow> db \<Rightarrow> db" where
  "saveWeeklyDay d s = logged (Put WeeklyPlan (StrKey (day d))) (s\<lparr>weeklyPlan := store_put day d (weeklyPlan s)\<rparr>)"

definition getWeeklyPlan :: "db \<Rightarrow> dayPlan list" where
  "getWeeklyPlan s = weeklyPlan s"

definition saveOutfit :: "outfit \<Rightarrow> db \<Rightarrow> db" where
  "saveOutfit opt s =
     logged (Put SavedOutfits (NumKey (outfit_id opt))) (s\<lparr>savedOutfits := store_put outfit_id opt (savedOutfits s)\<rparr>)"

definition getAllSavedOutfits :: "db \<Rightarrow> outfit list" where
  "getAllSavedOutfits s = savedOutfits s"

definition deleteSavedOutfit :: "rat \<Rightarrow> db \<Rightarrow> db" where
  "deleteSavedOutfit k s =
     logged (Delete SavedOutfits (NumKey k)) (s\<lparr>savedOutfits := store_delete outfit_id k (savedOutfits s)\<rparr>)"

definition saveCustomSection :: "customSection \<Rightarrow> db \<Rightarrow> db" where
  "saveCustomSection sec s =
     logged (Put CustomSections (NumKey (section_id sec)))
       (s\<lparr>customSections := store_put section_id sec (customSections s)\<rparr>)"

definition getAllCustomSections :: "db \<Rightarrow> customSection list" where
  "getAllCustomSections s = customSections s"

definition deleteCustomSection :: "rat \<Rightarrow> db \<Rightarrow> db" where
  "deleteCustomSection k s =
     logged (Delete CustomSections (NumKey k)) (s\<lparr>customSections := store_delete section_id k (customSections s)\<rparr>)"

definition saveShoppingItem :: "shoppingItem \<Rightarrow> db \<Rightarrow> db" where
  "saveShoppingItem it s =
     logged (Put ShoppingList (NumKey (shop_id it))) (s\<lparr>shoppingList := store_put shop_id it (shoppingList s)\<rparr>)"

definition getAllShoppingItems :: "db \<Rightarrow> shoppingItem list" where
  "getAllShoppingItems s = shoppingList s"

definition Storage_deleteShoppingItem :: "rat \<Rightarrow> db \<Rightarrow> db" where
  "Storage_deleteShoppingItem k s =
     logged (Delete ShoppingList (NumKey k)) (s\<lparr>shoppingList := store_delete shop_id k (shoppingList s)\<rparr>)"

definition saveToTrash :: "item \<Rightarrow> db \<Rightarrow> db" where
  "saveToTrash it s = logged (Put Trash (NumKey (item_id it))) (s\<lparr>trash := store_put item_id it (trash s)\<rparr>)"

definition getAllTrash :: "db \<Rightarrow> item list" where
  "getAllTrash s = trash s"

text \<open>
  \<open>restoreFromTrash\<close> reads the entry and deletes the key in one transaction; the
  \<open>delete\<close> is issued whether or not an entry was found.
\<close>

definition restoreFromTrash :: "rat \<Rightarrow> db \<Rightarrow> item option \<times> db" where
  "restoreFromTrash k s =
     (store_get item_id k (trash s),
      logged (Delete Trash (NumKey k)) (s\<lparr>trash := store_delete item_id k (trash s)\<rparr>))"


subsection \<open>JavaScript values and the platform's conversions\<close>

text \<open>
  Settings travel through \<open>localStorage\<close> as strings and come back as whatever
  \<open>JSON.parse\<close> makes of them. Numbers are exact rationals (there is no \<open>NaN\<close>:
  a conversion that yields \<open>NaN\<close> is \<open>None\<close>).
\<close>

datatype jsval =
    JUndefined
  | JNull
  | JBool bool
  | JNum rat
  | JStr string
  | JArr "jsval list"
  | JObj "(string \<times> jsval) list"

text \<open>\<open>if (v)\<close>, \<open>v || d\<close>, \<open>!v\<close>.\<close>

fun truthy :: "jsval \<Rightarrow> bool" where
  "truthy JUndefined = False"
| "truthy JNull = False"
| "truthy (JBool b) = b"
| "truthy (JNum n) = (n \<noteq> 0)"
| "truthy (JStr s) = (s \<noteq> [])"
| "truthy (JArr xs) = True"
| "truthy (JObj kvs) = True"

text \<open>\<open>if (item.imageId)\<close> on an identifier that is a number or \<open>null\<close>.\<close>

fun truthy_id :: "rat option \<Rightarrow> bool" where
  "truthy_id None = False"
| "truthy_id (Some k) = (k \<noteq> 0)"

text \<open>\<open>typeof v === 'object'\<close>.\<close>

fun typeof_object :: "jsval \<Rightarrow> bool" where
  "typeof_object JNull = True"
| "typeof_object (JArr xs) = True"
| "typeof_object (JObj kvs) = True"
| "typeof_object v = False"

text \<open>
  \<open>v.name\<close> for a property name that only a plain object can carry (\<open>timestamp\<close>,
  \<open>data\<close>, \<open>version\<close>, \<open>id\<close>, the names of the collections and of the settings); the
  program reads it only where \<open>v\<close> is neither \<open>null\<close> nor \<open>undefined\<close>.
\<close>

fun get_prop :: "jsval \<Rightarrow> string \<Rightarrow> jsval" where
  "get_prop (JObj kvs) name = (case map_of kvs name of Some v \<Rightarrow> v | None \<Rightarrow> JUndefined)"
| "get_prop v name = JUndefined"

text \<open>
  What the program asks of the JavaScript runtime: \<open>JSON.parse\<close> (\<open>None\<close> where it
  throws), \<open>JSON.stringify\<close>, the conversion of a value to a string (template
  literals, \<open>localStorage.setItem\<close>) and of a string to a number. Every definition below
  takes the runtime as a parameter, so the theorems hold for any runtime.
\<close>

record platform =
  JSON_parse :: "string \<Rightarrow> jsval option"
  JSON_stringify :: "jsval \<Rightarrow> string"
  ToString :: "jsval \<Rightarrow> string"
  StringToNumber :: "string \<Rightarrow> rat option"

text \<open>The operand conversion of \<open>a - b\<close> and \<open>a < b\<close>.\<close>

fun ToNumber :: "platform \<Rightarrow> jsval \<Rightarrow> rat option" where
  "ToNumber pf JUndefined = None"
| "ToNumber pf JNull = Some 0"
| "ToNumber pf (JBool b) = Some (if b then 1 else 0)"
| "ToNumber pf (JNum n) = Some n"
| "ToNumber pf (JStr s) = StringToNumber pf s"
| "ToNumber pf (JArr xs) = StringToNumber pf (ToString pf (JArr xs))"
| "ToNumber pf (JObj kvs) = StringToNumber pf (ToString pf (JObj kvs))"

subsection \<open>Storage: settings\<close>

type_synonym localStorage = "string \<rightharpoonup> string"

definition getSetting :: "platform \<Rightarrow> localStorage \<Rightarrow> string \<Rightarrow> jsval \<Rightarrow> jsval" where
  "getSetting pf ls k defaultValue =
     (case ls (''wardrobe_'' @ k) of
        None \<Rightarrow> defaultValue
      | Some v \<Rightarrow> (case JSON_parse pf v of Some j \<Rightarrow> j | None \<Rightarrow> JStr v))"

definition setSetting :: "platform \<Rightarrow> string \<Rightarrow> jsval \<Rightarrow> localStorage \<Rightarrow> localStorage" where
  "setSetting pf k v ls =
     (if typeof_object v then ls(''wardrobe_'' @ k \<mapsto> JSON_stringify pf v)
      else ls(''wardrobe_'' @ k \<mapsto> ToString pf v))"


subsection \<open>Storage: emptying the trash in one transaction\<close>

text \<open>
  \<open>emptyTrash\<close> opens a single read-write transaction over \<open>trash\<close> and \<open>images\<close>.
  A request that the engine fails aborts the transaction: \<open>tx.onerror\<close> rejects the
  promise and nothing the transaction wrote is kept. The engine is the predicate
  \<open>fails\<close> on requests. The loop issues a \<open>delete\<close> for every entry whose \<open>imageId\<close> is
  truthy; \<open>None\<close> means that a request failed.
\<close>

fun delete_trash_images :: "(request \<Rightarrow> bool) \<Rightarrow> item list \<Rightarrow> db \<Rightarrow> db option" where
  "delete_trash_images fails [] s = Some s"
| "delete_trash_images fails (it # its) s =
     (case imageId it of
        None \<Rightarrow> delete_trash_images fails its s
      | Some k \<Rightarrow>
          if truthy_id (Some k) then
            (if fails (Delete Images (NumKey k)) then None
             else delete_trash_images fails its
                    (logged (Delete Images (NumKey k)) (s\<lparr>images := store_delete image_id k (images s)\<rparr>)))
          else delete_trash_images fails its s)"

definition Storage_emptyTrash :: "(request \<Rightarrow> bool) \<Rightarrow> db \<Rightarrow> (error + unit) \<times> db" where
  "Storage_emptyTrash fails s =
     (if fails (GetAll Trash) then (Inl TransactionError, s)
      else (case delete_trash_images fails (trash s) s of
              None \<Rightarrow> (Inl TransactionError, s)
            | Some s1 \<Rightarrow>
                if fails (Clear Trash) then (Inl TransactionError, s)
                else (Inr (), logged (Clear Trash) (s1\<lparr>trash := []\<rparr>))))"

subsection \<open>App: items and trash\<close>

text \<open>
  The methods of \<open>App\<close> end by redrawing the page (\<open>UI.showToast\<close>, \<open>UI.render...\<close>);
  drawing reads the stores and is left out. \<open>now\<close> is \<open>new Date().toISOString()\<close>.
\<close>

definition App_deleteItem :: "string \<Rightarrow> rat \<Rightarrow> db \<Rightarrow> db" where
  "App_deleteItem now itemId s =
     (case getItem itemId s of
        None \<Rightarrow> s
      | Some it \<Rightarrow>
          Storage_deleteItem itemId
            (saveToTrash (it\<lparr>deleted := Some True, deletedDate := Some now,
                             originalCategory := Some (category it)\<rparr>) s))"

text \<open>\<open>item.originalCategory || 'other'\<close>.\<close>

fun category_or_other :: "string option \<Rightarrow> string" where
  "category_or_other None = ''other''"
| "category_or_other (Some c) = (if c \<noteq> [] then c else ''other'')"

definition App_restoreItem :: "rat \<Rightarrow> db \<Rightarrow> db" where
  "App_restoreItem itemId s =
     (case restoreFromTrash itemId s of
        (None, s') \<Rightarrow> s'
      | (Some it, s') \<Rightarrow>
          saveItem (it\<lparr>deleted := Some False, category := category_or_other (originalCategory it),
                        deletedDate := None, originalCategory := None\<rparr>) s')"

definition App_deleteShoppingItem :: "rat \<Rightarrow> db \<Rightarrow> db" where
  "App_deleteShoppingItem itemId s = Storage_deleteShoppingItem itemId s"

subsection \<open>App: deleting a custom section\<close>

text \<open>The \<open>for\<close> loop over the section's items.\<close>

fun trash_section_items :: "item list \<Rightarrow> db \<Rightarrow> db" where
  "trash_section_items [] s = s"
| "trash_section_items (it # its) s =
     trash_section_items its
       (Storage_deleteItem (item_id it)
          (saveToTrash (it\<lparr>deleted := Some True, originalCategory := Some (category it)\<rparr>) s))"

text \<open>The template literal \<open>custom-${sectionId}\<close>.\<close>

definition section_category :: "platform \<Rightarrow> rat \<Rightarrow> string" where
  "section_category pf sectionId = ''custom-'' @ ToString pf (JNum sectionId)"

text \<open>\<open>confirmed\<close> is the answer to the \<open>confirm\<close> dialog.\<close>

definition App_deleteSection :: "platform \<Rightarrow> bool \<Rightarrow> rat \<Rightarrow> db \<Rightarrow> db" where
  "App_deleteSection pf confirmed sectionId s =
     (if \<not> confirmed then s
      else (let sectionItems = filter (\<lambda>i. category i = section_category pf sectionId) (getAllItems s)
            in deleteCustomSection sectionId (trash_section_items sectionItems s)))"

text \<open>
  The category values of the data model, as \<open>DragDrop.getCategoryName\<close> tells them apart:
  the four fixed names, and the categories that start with \<open>custom-\<close>.
\<close>

definition is_category :: "string \<Rightarrow> bool" where
  "is_category c = (c \<in> {''tops'', ''bottoms'', ''outerwear'', ''other''} \<or> take 7 c = ''custom-'')"

text \<open>
  A custom category refers to an existing section when some stored section gives rise to
  it; a database has no dangling section when every active item of a custom category
  refers to an existing section.
\<close>

definition section_exists :: "platform \<Rightarrow> db \<Rightarrow> string \<Rightarrow> bool" where
  "section_exists pf s c = (c \<in> set (map (\<lambda>x. section_category pf (section_id x)) (customSections s)))"

definition no_dangling_section :: "platform \<Rightarrow> db \<Rightarrow> bool" where
  "no_dangling_section pf s =
     list_all (\<lambda>it. if take 7 (category it) = ''custom-'' then section_exists pf s (category it) else True)
       (items s)"

subsection \<open>The weekly planner\<close>

text \<open>
  \<open>App.currentWeeklyDay\<close> is the day whose modal is open, \<open>None\<close> for \<open>null\<close>. Both ways
  of adding an item look the day's plan up, return when the id is already there, and
  otherwise push the id and store the plan.
\<close>

definition App_openWeeklyModal :: "string \<Rightarrow> string option \<times> db \<Rightarrow> string option \<times> db" where
  "App_openWeeklyModal d a = (Some d, snd a)"

definition App_closeWeeklyModal :: "string option \<times> db \<Rightarrow> string option \<times> db" where
  "App_closeWeeklyModal a = (None, snd a)"

definition App_addToWeeklyFromModal :: "rat \<Rightarrow> string option \<times> db \<Rightarrow> string option \<times> db" where
  "App_addToWeeklyFromModal itemId a =
     (case fst a of
        None \<Rightarrow> a
      | Some d \<Rightarrow>
          if d = [] then a
          else (case find (\<lambda>p. day p = d) (getWeeklyPlan (snd a)) of
                  None \<Rightarrow> a
                | Some dayPlan \<Rightarrow>
                    if itemId \<in> set (day_items dayPlan) then a
                    else App_closeWeeklyModal
                           (fst a, saveWeeklyDay (dayPlan\<lparr>day_items := day_items dayPlan @ [itemId]\<rparr>) (snd a))))"

definition DragDrop_addToWeeklyOutfit :: "string \<Rightarrow> rat \<Rightarrow> db \<Rightarrow> db" where
  "DragDrop_addToWeeklyOutfit d itemId s =
     (case find (\<lambda>p. day p = d) (getWeeklyPlan s) of
        None \<Rightarrow> s
      | Some dayPlan \<Rightarrow>
          if itemId \<in> set (day_items dayPlan) then s
          else saveWeeklyDay (dayPlan\<lparr>day_items := day_items dayPlan @ [itemId]\<rparr>) s)"

text \<open>A sequence of planner calls, as the page's handlers issue them.\<close>

datatype weekly_call =
    OpenWeeklyModal string
  | CloseWeeklyModal
  | AddToWeeklyFromModal rat
  | AddToWeeklyOutfit string rat

fun weekly_step :: "weekly_call \<Rightarrow> string option \<times> db \<Rightarrow> string option \<times> db" where
  "weekly_step (OpenWeeklyModal d) a = App_openWeeklyModal d a"
| "weekly_step CloseWeeklyModal a = App_closeWeeklyModal a"
| "weekly_step (AddToWeeklyFromModal itemId) a = App_addToWeeklyFromModal itemId a"
| "weekly_step (AddToWeeklyOutfit d itemId) a = (fst a, DragDrop_addToWeeklyOutfit d itemId (snd a))"

definition weekly_run :: "weekly_call list \<Rightarrow> string option \<times> db \<Rightarrow> string option \<times> db" where
  "weekly_run calls a = fold weekly_step calls a"

text \<open>The five plans \<open>UI.renderWeeklyOutfits\<close> stores when the planner is empty.\<close>

definition default_days :: "dayPlan list" where
  "default_days =
     [\<lparr>day = ''Monday'', day_type = ''Business Casual'', day_items = [], day_notes = ''''\<rparr>,
      \<lparr>day = ''Tuesday'', day_type = ''Client Day'', day_items = [], day_notes = ''''\<rparr>,
      \<lparr>day = ''Wednesday'', day_type = ''Client Day'', day_items = [], day_notes = ''''\<rparr>,
      \<lparr>day = ''Thursday'', day_type = ''Client Day'', day_items = [], day_notes = ''''\<rparr>,
      \<lparr>day = ''Friday'', day_type = ''Casual Friday'', day_items = [], day_notes = ''''\<rparr>]"

definition empty_db :: db where
  "empty_db =
     \<lparr>items = [], images = [], weeklyPlan = [], savedOutfits = [], customSections = [],
      shoppingList = [], trash = [], journal = []\<rparr>"

text \<open>The planner of a new installation, after its first rendering.\<close>

definition planner_db :: db where
  "planner_db = fold saveWeeklyDay default_days empty_db"

subsection \<open>Storage: export and import\<close>

record settingsDoc =
  userName :: jsval
  theme :: jsval
  location :: jsval
  tempUnit :: jsval

text \<open>
  The backup document. A collection that the document lacks is \<open>None\<close>
  (\<open>data.images || []\<close>); \<open>version\<close> is any value, \<open>JUndefined\<close> when missing.
\<close>

record document =
  version :: jsval
  exportDate :: string
  doc_items :: "item list option"
  doc_images :: "image list option"
  doc_weeklyPlan :: "dayPlan list option"
  doc_savedOutfits :: "outfit list option"
  doc_customSections :: "customSection list option"
  doc_shoppingList :: "shoppingItem list option"
  doc_settings :: "settingsDoc option"

text \<open>The loop under \<open>// Get all images\<close>: it walks \<open>data.items\<close>.\<close>

fun export_images :: "item list \<Rightarrow> db \<Rightarrow> image list" where
  "export_images [] s = []"
| "export_images (it # its) s =
     (case imageId it of
        None \<Rightarrow> export_images its s
      | Some k \<Rightarrow>
          if truthy_id (Some k) then
            (case getImage k s of
               None \<Rightarrow> export_images its s
             | Some imageData \<Rightarrow> \<lparr>image_id = k, image_data = imageData\<rparr> # export_images its s)
          else export_images its s)"

definition exportAllData :: "platform \<Rightarrow> string \<Rightarrow> db \<Rightarrow> localStorage \<Rightarrow> document" where
  "exportAllData pf now s ls =
     \<lparr>version = JNum 1,
      exportDate = now,
      doc_items = Some (getAllItems s),
      doc_images = Some (export_images (getAllItems s) s),
      doc_weeklyPlan = Some (getWeeklyPlan s),
      doc_savedOutfits = Some (getAllSavedOutfits s),
      doc_customSections = Some (getAllCustomSections s),
      doc_shoppingList = Some (getAllShoppingItems s),
      doc_settings = Some
        \<lparr>userName = getSetting pf ls ''userName'' JNull,
         theme = getSetting pf ls ''theme'' JNull,
         location = getSetting pf ls ''location'' JNull,
         tempUnit = getSetting pf ls ''tempUnit'' JNull\<rparr>\<rparr>"

fun clear_store :: "store_name \<Rightarrow> db \<Rightarrow> db" where
  "clear_store Items s = logged (Clear Items) (s\<lparr>items := []\<rparr>)"
| "clear_store Images s = logged (Clear Images) (s\<lparr>images := []\<rparr>)"
| "clear_store WeeklyPlan s = logged (Clear WeeklyPlan) (s\<lparr>weeklyPlan := []\<rparr>)"
| "clear_store SavedOutfits s = logged (Clear SavedOutfits) (s\<lparr>savedOutfits := []\<rparr>)"
| "clear_store CustomSections s = logged (Clear CustomSections) (s\<lparr>customSections := []\<rparr>)"
| "clear_store ShoppingList s = logged (Clear ShoppingList) (s\<lparr>shoppingList := []\<rparr>)"
| "clear_store Trash s = logged (Clear Trash) (s\<lparr>trash := []\<rparr>)"

definition all_stores :: "store_name list" where
  "all_stores = [Items, Images, WeeklyPlan, SavedOutfits, CustomSections, ShoppingList, Trash]"

definition clearAllData :: "db \<Rightarrow> db" where
  "clearAllData s = fold clear_store all_stores s"

definition or_empty :: "'a list option \<Rightarrow> 'a list" where
  "or_empty xs = (case xs of None \<Rightarrow> [] | Some ys \<Rightarrow> ys)"

definition import_setting :: "platform \<Rightarrow> string \<Rightarrow> jsval \<Rightarrow> localStorage \<Rightarrow> localStorage" where
  "import_setting pf k v ls = (if truthy v then setSetting pf k v ls else ls)"

definition import_settings :: "platform \<Rightarrow> settingsDoc option \<Rightarrow> localStorage \<Rightarrow> localStorage" where
  "import_settings pf st ls =
     (case st of
        None \<Rightarrow> ls
      | Some t \<Rightarrow>
          import_setting pf ''tempUnit'' (tempUnit t)
            (import_setting pf ''location'' (location t)
              (import_setting pf ''theme'' (theme t)
                (import_setting pf ''userName'' (userName t) ls))))"

text \<open>
  The body of \<open>importAllData\<close> on a document whose collections are already records of
  the stores' types: the version test, the seven \<open>clear\<close>s, the six loops and the
  settings. On such a document no \<open>put\<close> throws. It returns the outcome with the
  database and the settings it leaves behind; \<open>None\<close> is a document that is \<open>null\<close> or
  \<open>undefined\<close>.
\<close>

definition import_records ::
  "platform \<Rightarrow> document option \<Rightarrow> db \<Rightarrow> localStorage \<Rightarrow> (error + bool) \<times> db \<times> localStorage" where
  "import_records pf data s ls =
     (case data of
        None \<Rightarrow> (Inl InvalidDataFormat, s, ls)
      | Some d \<Rightarrow>
          if version d \<noteq> JNum 1 then (Inl InvalidDataFormat, s, ls)
          else
            (let s0 = clearAllData s;
                 s1 = fold (\<lambda>img. saveImage (image_id img) (image_data img)) (or_empty (doc_images d)) s0;
                 s2 = fold saveItem (or_empty (doc_items d)) s1;
                 s3 = fold saveWeeklyDay (or_empty (doc_weeklyPlan d)) s2;
                 s4 = fold saveOutfit (or_empty (doc_savedOutfits d)) s3;
                 s5 = fold saveCustomSection (or_empty (doc_customSections d)) s4;
                 s6 = fold saveShoppingItem (or_empty (doc_shoppingList d)) s5
             in (Inr True, s6, import_settings pf (doc_settings d) ls)))"

subsection \<open>Storage: importing any parsed document\<close>

text \<open>
  \<open>App.importData\<close> hands \<open>importAllData\<close> whatever \<open>JSON.parse\<close> made of the chosen
  file. The stores of this model hold records of fixed types under numeric ids (day
  plans under their day), so a value of the document is one of three things: a record
  of the store's type, a value on which the \<open>put\<close> (or the property access before it)
  throws, or a value that the real store accepts and this model cannot hold.
\<close>

datatype 'r decoded = Stored 'r | Throws error | Beyond

text \<open>
  What \<open>put\<close> finds at the key path: a number, a string, another valid key (an array of
  keys), nothing (\<open>undefined\<close>: the key is left to the store's generator, if it has one),
  or a value that is no key (a \<open>DataError\<close>).
\<close>

datatype key_class = NumberKey rat | StringKey string | OtherKey | NoKey | InvalidKey

fun valid_key :: "jsval \<Rightarrow> bool" where
  "valid_key (JNum q) = True"
| "valid_key (JStr s) = True"
| "valid_key (JArr xs) = list_all valid_key xs"
| "valid_key v = False"

fun key_class_of :: "jsval \<Rightarrow> key_class" where
  "key_class_of (JNum q) = NumberKey q"
| "key_class_of (JStr s) = StringKey s"
| "key_class_of (JArr xs) = (if list_all valid_key xs then OtherKey else InvalidKey)"
| "key_class_of JUndefined = NoKey"
| "key_class_of v = InvalidKey"

text \<open>Reading a field of a record's type; \<open>None\<close> where the value is of another type.\<close>

fun as_string :: "jsval \<Rightarrow> string option" where
  "as_string (JStr s) = Some s"
| "as_string v = None"

fun as_bool :: "jsval \<Rightarrow> bool option" where
  "as_bool (JBool b) = Some b"
| "as_bool v = None"

fun as_number :: "jsval \<Rightarrow> rat option" where
  "as_number (JNum q) = Some q"
| "as_number v = None"

fun as_numbers :: "jsval \<Rightarrow> rat list option" where
  "as_numbers (JArr xs) = those (map as_number xs)"
| "as_numbers v = None"

text \<open>A field that may be missing, and an image reference (a number, \<open>null\<close> or missing).\<close>

fun optional :: "(jsval \<Rightarrow> 'a option) \<Rightarrow> jsval \<Rightarrow> 'a option option" where
  "optional f JUndefined = Some None"
| "optional f v = map_option Some (f v)"

fun as_reference :: "jsval \<Rightarrow> rat option option" where
  "as_reference JUndefined = Some None"
| "as_reference JNull = Some None"
| "as_reference (JNum q) = Some (Some q)"
| "as_reference v = None"

definition only_fields :: "string list \<Rightarrow> (string \<times> jsval) list \<Rightarrow> bool" where
  "only_fields names kvs = (distinct (map fst kvs) \<and> list_all (\<lambda>kv. fst kv \<in> set names) kvs)"

definition read_item :: "rat \<Rightarrow> jsval \<Rightarrow> item option" where
  "read_item k v =
     Option.bind (as_reference (get_prop v ''imageId'')) (\<lambda>im.
     Option.bind (as_string (get_prop v ''category'')) (\<lambda>c.
     Option.bind (as_bool (get_prop v ''favorite'')) (\<lambda>f.
     Option.bind (as_bool (get_prop v ''laundry'')) (\<lambda>l.
     Option.bind (as_string (get_prop v ''dateAdded'')) (\<lambda>da.
     Option.bind (optional as_bool (get_prop v ''deleted'')) (\<lambda>d.
     Option.bind (optional as_string (get_prop v ''deletedDate'')) (\<lambda>dd.
     Option.bind (optional as_string (get_prop v ''originalCategory'')) (\<lambda>oc.
       Some \<lparr>item_id = k, imageId = im, category = c, favorite = f, laundry = l, dateAdded = da,
             deleted = d, deletedDate = dd, originalCategory = oc\<rparr>))))))))"

definition read_day :: "string \<Rightarrow> jsval \<Rightarrow> dayPlan option" where
  "read_day d v =
     Option.bind (as_string (get_prop v ''type'')) (\<lambda>t.
     Option.bind (as_numbers (get_prop v ''items'')) (\<lambda>is.
     Option.bind (as_string (get_prop v ''notes'')) (\<lambda>n.
       Some \<lparr>day = d, day_type = t, day_items = is, day_notes = n\<rparr>)))"

definition read_outfit :: "rat \<Rightarrow> jsval \<Rightarrow> outfit option" where
  "read_outfit k v =
     Option.bind (as_numbers (get_prop v ''items'')) (\<lambda>is.
     Option.bind (as_string (get_prop v ''notes'')) (\<lambda>n.
     Option.bind (as_string (get_prop v ''date'')) (\<lambda>d.
       Some \<lparr>outfit_id = k, outfit_items = is, outfit_notes = n, outfit_date = d\<rparr>)))"

definition read_section :: "rat \<Rightarrow> jsval \<Rightarrow> customSection option" where
  "read_section k v =
     Option.bind (as_string (get_prop v ''name'')) (\<lambda>n.
     Option.bind (as_numbers (get_prop v ''items'')) (\<lambda>is.
       Some \<lparr>section_id = k, section_name = n, section_items = is\<rparr>))"

definition read_shoppingItem :: "rat \<Rightarrow> jsval \<Rightarrow> shoppingItem option" where
  "read_shoppingItem k v =
     Option.bind (as_string (get_prop v ''name'')) (\<lambda>n.
     Option.bind (as_string (get_prop v ''desc'')) (\<lambda>d.
     Option.bind (as_string (get_prop v ''price'')) (\<lambda>p.
     Option.bind (as_reference (get_prop v ''imageId'')) (\<lambda>im.
       Some \<lparr>shop_id = k, shop_name = n, shop_desc = d, shop_price = p, shop_imageId = im\<rparr>))))"

text \<open>
  \<open>store.put(v)\<close> on a store with key path \<open>id\<close> and a key generator (\<open>items\<close>,
  \<open>savedOutfits\<close>, \<open>customSections\<close>, \<open>shoppingList\<close>). A value that is no object
  cannot take a generated key; an array can, and so can an object without \<open>id\<close>.
\<close>

definition decode_keyed :: "(rat \<Rightarrow> jsval \<Rightarrow> 'r option) \<Rightarrow> string list \<Rightarrow> jsval \<Rightarrow> 'r decoded" where
  "decode_keyed rd names v =
     (case v of
        JObj kvs \<Rightarrow>
          (case key_class_of (get_prop v ''id'') of
             InvalidKey \<Rightarrow> Throws DataError
           | NumberKey k \<Rightarrow>
               if only_fields names kvs
               then (case rd k v of Some r \<Rightarrow> Stored r | None \<Rightarrow> Beyond)
               else Beyond
           | StringKey x \<Rightarrow> Beyond
           | OtherKey \<Rightarrow> Beyond
           | NoKey \<Rightarrow> Beyond)
      | JArr xs \<Rightarrow> Beyond
      | JUndefined \<Rightarrow> Throws DataError
      | JNull \<Rightarrow> Throws DataError
      | JBool b \<Rightarrow> Throws DataError
      | JNum q \<Rightarrow> Throws DataError
      | JStr x \<Rightarrow> Throws DataError)"

definition decode_item :: "jsval \<Rightarrow> item decoded" where
  "decode_item =
     decode_keyed read_item
       [''id'', ''imageId'', ''category'', ''favorite'', ''laundry'', ''dateAdded'', ''deleted'',
        ''deletedDate'', ''originalCategory'']"

definition decode_outfit :: "jsval \<Rightarrow> outfit decoded" where
  "decode_outfit = decode_keyed read_outfit [''id'', ''items'', ''notes'', ''date'']"

definition decode_section :: "jsval \<Rightarrow> customSection decoded" where
  "decode_section = decode_keyed read_section [''id'', ''name'', ''items'']"

definition decode_shoppingItem :: "jsval \<Rightarrow> shoppingItem decoded" where
  "decode_shoppingItem =
     decode_keyed read_shoppingItem [''id'', ''name'', ''desc'', ''price'', ''imageId'']"

text \<open>\<open>store.put(v)\<close> on \<open>weeklyPlan\<close>: key path \<open>day\<close>, no key generator.\<close>

definition decode_day :: "jsval \<Rightarrow> dayPlan decoded" where
  "decode_day v =
     (case v of
        JObj kvs \<Rightarrow>
          (case key_class_of (get_prop v ''day'') of
             InvalidKey \<Rightarrow> Throws DataError
           | NoKey \<Rightarrow> Throws DataError
           | StringKey d \<Rightarrow>
               if only_fields [''day'', ''type'', ''items'', ''notes''] kvs
               then (case read_day d v of Some r \<Rightarrow> Stored r | None \<Rightarrow> Beyond)
               else Beyond
           | NumberKey k \<Rightarrow> Beyond
           | OtherKey \<Rightarrow> Beyond)
      | JArr xs \<Rightarrow> Throws DataError
      | JUndefined \<Rightarrow> Throws DataError
      | JNull \<Rightarrow> Throws DataError
      | JBool b \<Rightarrow> Throws DataError
      | JNum q \<Rightarrow> Throws DataError
      | JStr x \<Rightarrow> Throws DataError)"

text \<open>
  \<open>saveImage(img.id, img.data)\<close>: the property access throws on \<open>null\<close>, and the \<open>put\<close>
  of \<open>{id, data}\<close> throws when \<open>img.id\<close> is no key (the store has no generator).
\<close>

definition decode_image :: "jsval \<Rightarrow> image decoded" where
  "decode_image img =
     (if img = JNull then Throws TypeError
      else if img = JUndefined then Throws TypeError
      else (case key_class_of (get_prop img ''id'') of
              InvalidKey \<Rightarrow> Throws DataError
            | NoKey \<Rightarrow> Throws DataError
            | NumberKey k \<Rightarrow>
                (case as_string (get_prop img ''data'') of
                   Some d \<Rightarrow> Stored \<lparr>image_id = k, image_data = d\<rparr>
                 | None \<Rightarrow> Beyond)
            | StringKey x \<Rightarrow> Beyond
            | OtherKey \<Rightarrow> Beyond))"

text \<open>
  \<open>for (const x of v || [])\<close>: an array yields its elements, a string its characters,
  a falsy value nothing; any other value is not iterable.
\<close>

fun iterate :: "jsval \<Rightarrow> error + jsval list" where
  "iterate (JArr xs) = Inr xs"
| "iterate (JStr s) = Inr (map (\<lambda>c. JStr [c]) s)"
| "iterate v = (if truthy v then Inl TypeError else Inr [])"

text \<open>
  One loop of \<open>importAllData\<close>: it stops at the first value that throws, with what it has
  stored so far; \<open>None\<close> when it meets a value beyond the model.
\<close>

fun import_loop ::
  "(jsval \<Rightarrow> 'r decoded) \<Rightarrow> ('r \<Rightarrow> db \<Rightarrow> db) \<Rightarrow> jsval list \<Rightarrow> db \<Rightarrow> ((error + unit) \<times> db) option" where
  "import_loop dec save [] s = Some (Inr (), s)"
| "import_loop dec save (v # vs) s =
     (case dec v of
        Stored r \<Rightarrow> import_loop dec save vs (save r s)
      | Throws e \<Rightarrow> Some (Inl e, s)
      | Beyond \<Rightarrow> None)"

definition import_collection ::
  "(jsval \<Rightarrow> 'r decoded) \<Rightarrow> ('r \<Rightarrow> db \<Rightarrow> db) \<Rightarrow> jsval \<Rightarrow> db \<Rightarrow> ((error + unit) \<times> db) option" where
  "import_collection dec save v s =
     (case iterate v of
        Inl e \<Rightarrow> Some (Inl e, s)
      | Inr vs \<Rightarrow> import_loop dec save vs s)"

text \<open>The next loop runs only when the one before it has finished without throwing.\<close>

definition and_then ::
  "((error + unit) \<times> db) option \<Rightarrow> (db \<Rightarrow> ((error + unit) \<times> db) option) \<Rightarrow> ((error + unit) \<times> db) option" where
  "and_then r f =
     (case r of
        None \<Rightarrow> None
      | Some (Inl e, s) \<Rightarrow> Some (Inl e, s)
      | Some (Inr u, s) \<Rightarrow> f s)"

definition settings_of :: "jsval \<Rightarrow> settingsDoc option" where
  "settings_of st =
     (if truthy st
      then Some \<lparr>userName = get_prop st ''userName'', theme = get_prop st ''theme'',
                 location = get_prop st ''location'', tempUnit = get_prop st ''tempUnit''\<rparr>
      else None)"

text \<open>
  \<open>Storage.importAllData\<close> on any value. It returns the outcome with the database and the
  settings it leaves behind: when a loop throws, the stores are as the loops have left
  them.
\<close>

definition importAllData ::
  "platform \<Rightarrow> jsval \<Rightarrow> db \<Rightarrow> localStorage \<Rightarrow> ((error + bool) \<times> db \<times> localStorage) option" where
  "importAllData pf data s ls =
     (if \<not> truthy data then Some (Inl InvalidDataFormat, s, ls)
      else if get_prop data ''version'' \<noteq> JNum 1 then Some (Inl InvalidDataFormat, s, ls)
      else
        (case and_then (and_then (and_then (and_then (and_then
                (import_collection decode_image (\<lambda>img. saveImage (image_id img) (image_data img))
                   (get_prop data ''images'') (clearAllData s))
                (import_collection decode_item saveItem (get_prop data ''items'')))
                (import_collection decode_day saveWeeklyDay (get_prop data ''weeklyPlan'')))
                (import_collection decode_outfit saveOutfit (get_prop data ''savedOutfits'')))
                (import_collection decode_section saveCustomSection (get_prop data ''customSections'')))
                (import_collection decode_shoppingItem saveShoppingItem (get_prop data ''shoppingList''))
         of
           None \<Rightarrow> None
         | Some (Inl e, s') \<Rightarrow> Some (Inl e, s', ls)
         | Some (Inr u, s') \<Rightarrow> Some (Inr True, s', import_settings pf (settings_of (get_prop data ''settings'')) ls)))"

text \<open>
  The object that \<open>exportAllData\<close> returns (and that a backup file holds), as a value:
  every record with the fields it carries.
\<close>

definition reference_json :: "rat option \<Rightarrow> jsval" where
  "reference_json r = (case r of None \<Rightarrow> JNull | Some k \<Rightarrow> JNum k)"

definition optional_json :: "string \<Rightarrow> ('a \<Rightarrow> jsval) \<Rightarrow> 'a option \<Rightarrow> (string \<times> jsval) list" where
  "optional_json name f x = (case x of None \<Rightarrow> [] | Some y \<Rightarrow> [(name, f y)])"

definition item_json :: "item \<Rightarrow> jsval" where
  "item_json it =
     JObj ([(''id'', JNum (item_id it)), (''imageId'', reference_json (imageId it)),
            (''category'', JStr (category it)), (''favorite'', JBool (favorite it)),
            (''laundry'', JBool (laundry it)), (''dateAdded'', JStr (dateAdded it))]
           @ optional_json ''deleted'' JBool (deleted it)
           @ optional_json ''deletedDate'' JStr (deletedDate it)
           @ optional_json ''originalCategory'' JStr (originalCategory it))"

definition image_json :: "image \<Rightarrow> jsval" where
  "image_json img = JObj [(''id'', JNum (image_id img)), (''data'', JStr (image_data img))]"

definition day_json :: "dayPlan \<Rightarrow> jsval" where
  "day_json p =
     JObj [(''day'', JStr (day p)), (''type'', JStr (day_type p)),
           (''items'', JArr (map JNum (day_items p))), (''notes'', JStr (day_notes p))]"

definition outfit_json :: "outfit \<Rightarrow> jsval" where
  "outfit_json x =
     JObj [(''id'', JNum (outfit_id x)), (''items'', JArr (map JNum (outfit_items x))),
           (''notes'', JStr (outfit_notes x)), (''date'', JStr (outfit_date x))]"

definition section_json :: "customSection \<Rightarrow> jsval" where
  "section_json x =
     JObj [(''id'', JNum (section_id x)), (''name'', JStr (section_name x)),
           (''items'', JArr (map JNum (section_items x)))]"

definition shoppingItem_json :: "shoppingItem \<Rightarrow> jsval" where
  "shoppingItem_json x =
     JObj [(''id'', JNum (shop_id x)), (''name'', JStr (shop_name x)), (''desc'', JStr (shop_desc x)),
           (''price'', JStr (shop_price x)), (''imageId'', reference_json (shop_imageId x))]"

definition settings_json :: "settingsDoc \<Rightarrow> jsval" where
  "settings_json t =
     JObj [(''userName'', userName t), (''theme'', theme t), (''location'', location t),
           (''tempUnit'', tempUnit t)]"

definition document_json :: "document \<Rightarrow> jsval" where
  "document_json d =
     JObj ([(''version'', version d), (''exportDate'', JStr (exportDate d))]
           @ optional_json ''items'' (\<lambda>xs. JArr (map item_json xs)) (doc_items d)
           @ optional_json ''images'' (\<lambda>xs. JArr (map image_json xs)) (doc_images d)
           @ optional_json ''weeklyPlan'' (\<lambda>xs. JArr (map day_json xs)) (doc_weeklyPlan d)
           @ optional_json ''savedOutfits'' (\<lambda>xs. JArr (map outfit_json xs)) (doc_savedOutfits d)
           @ optional_json ''customSections'' (\<lambda>xs. JArr (map section_json xs)) (doc_customSections d)
           @ optional_json ''shoppingList'' (\<lambda>xs. JArr (map shoppingItem_json xs)) (doc_shoppingList d)
           @ optional_json ''settings'' settings_json (doc_settings d))"

text \<open>
  A value of the document reads as a list of records when iterating it yields values
  that are, in this order, these records.
\<close>

definition reads_as :: "(jsval \<Rightarrow> 'r decoded) \<Rightarrow> jsval \<Rightarrow> 'r list \<Rightarrow> bool" where
  "reads_as dec v rs = (case iterate v of Inl e \<Rightarrow> False | Inr vs \<Rightarrow> map dec vs = map Stored rs)"

subsection \<open>Weather: the cached forecast\<close>

definition CACHE_DURATION :: rat where
  "CACHE_DURATION = 30 * 60 * 1000"

text \<open>
  What \<open>fetch(url)\<close> and \<open>response.json()\<close> can do: the promise rejects, or a response
  arrives with its \<open>ok\<close> flag, its status and the body that \<open>json()\<close> decodes
  (\<open>None\<close> where \<open>json()\<close> rejects). The network is a function of the three parts of
  the URL that vary: latitude, longitude and temperature unit, as printed into it.
\<close>

datatype fetch_outcome = Rejected | Response bool nat "jsval option"

type_synonym weather_url = "string \<times> string \<times> string"

text \<open>The \<open>catch\<close> block: the stale payload if there is a cached value, else the error.\<close>

definition stale_or_throw :: "jsval \<Rightarrow> error \<Rightarrow> error + jsval" where
  "stale_or_throw cached err = (if truthy cached then Inr (get_prop cached ''data'') else Inl err)"

text \<open>
  \<open>fetchWeather\<close> returns its outcome, the settings it leaves behind and the URLs it
  fetched. \<open>now1\<close> and \<open>now2\<close> are the two readings of \<open>Date.now()\<close>.
\<close>

definition fetchWeather ::
  "platform \<Rightarrow> (weather_url \<Rightarrow> fetch_outcome) \<Rightarrow> rat \<Rightarrow> rat \<Rightarrow> rat \<Rightarrow> rat \<Rightarrow> localStorage
     \<Rightarrow> (error + jsval) \<times> localStorage \<times> weather_url list" where
  "fetchWeather pf fetch now1 now2 lat lon ls =
     (let cached = getSetting pf ls ''weatherCache'' JNull in
      if truthy cached \<and>
         (case ToNumber pf (get_prop cached ''timestamp'') of
            None \<Rightarrow> False
          | Some t \<Rightarrow> now1 - t < CACHE_DURATION)
      then (Inr (get_prop cached ''data''), ls, [])
      else
        (let tempUnit = getSetting pf ls ''tempUnit'' (JStr ''fahrenheit'');
             url = (ToString pf (JNum lat), ToString pf (JNum lon), ToString pf tempUnit)
         in case fetch url of
              Rejected \<Rightarrow> (stale_or_throw cached NetworkError, ls, [url])
            | Response ok status body \<Rightarrow>
                if \<not> ok then (stale_or_throw cached (WeatherApiError status), ls, [url])
                else (case body of
                        None \<Rightarrow> (stale_or_throw cached BodySyntaxError, ls, [url])
                      | Some data \<Rightarrow>
                          (Inr data,
                           setSetting pf ''weatherCache'' (JObj [(''data'', data), (''timestamp'', JNum now2)]) ls,
                           [url]))))"

text \<open>
  The outcomes that take \<open>fetchWeather\<close> into its \<open>catch\<close> block: \<open>fetch\<close> rejects,
  the response is not \<open>ok\<close>, or \<open>json()\<close> rejects.
\<close>

fun fetch_failed :: "fetch_outcome \<Rightarrow> bool" where
  "fetch_failed Rejected = True"
| "fetch_failed (Response ok status body) = (if ok then body = None else True)"

subsection \<open>A reference runtime\<close>

text \<open>
  The conversions written out for 8-bit strings and exact decimal numbers: a JSON reader
  by recursive descent (fuel bounds the nesting and the number of elements; the length
  of the text is enough), a JSON printer and the two primitive conversions. Closed
  instances of the theorems are evaluated on it.
\<close>

definition digit_val :: "char \<Rightarrow> int option" where
  "digit_val c = map_of (zip ''0123456789'' [0, 1, 2, 3, 4, 5, 6, 7, 8, 9]) c"

definition hex_val :: "char \<Rightarrow> int option" where
  "hex_val c = map_of (zip ''0123456789abcdefABCDEF'' [0, 1, 2, 3, 4, 5, 6, 7, 8, 9, 10, 11, 12, 13, 14, 15, 10, 11, 12, 13, 14, 15]) c"

definition is_ws :: "char \<Rightarrow> bool" where
  "is_ws c = (c = CHR '' '' \<or> c = CHR 0x09 \<or> c = CHR 0x0A \<or> c = CHR 0x0D)"

definition skip_ws :: "string \<Rightarrow> string" where
  "skip_ws cs = dropWhile is_ws cs"

fun read_digits :: "string \<Rightarrow> int \<Rightarrow> nat \<Rightarrow> int \<times> nat \<times> string" where
  "read_digits [] acc n = (acc, n, [])"
| "read_digits (c # cs) acc n =
     (case digit_val c of
        Some d \<Rightarrow> read_digits cs (10 * acc + d) (Suc n)
      | None \<Rightarrow> (acc, n, c # cs))"

definition read_fraction :: "string \<Rightarrow> (rat \<times> string) option" where
  "read_fraction cs =
     (if cs \<noteq> [] \<and> hd cs = CHR ''.'' then
        (case read_digits (tl cs) 0 0 of
           (f, n, r) \<Rightarrow> if n = 0 then None else Some (of_int f / 10 ^ n, r))
      else Some (0, cs))"

definition read_exponent :: "string \<Rightarrow> (rat \<times> string) option" where
  "read_exponent cs =
     (if cs \<noteq> [] \<and> (hd cs = CHR ''e'' \<or> hd cs = CHR ''E'') then
        (let r = tl cs;
             neg = (r \<noteq> [] \<and> hd r = CHR ''-'');
             r' = (if r \<noteq> [] \<and> (hd r = CHR ''-'' \<or> hd r = CHR ''+'') then tl r else r)
         in case read_digits r' 0 0 of
              (e, n, r'') \<Rightarrow>
                if n = 0 then None
                else Some (if neg then 1 / 10 ^ nat e else 10 ^ nat e, r''))
      else Some (1, cs))"

definition read_number :: "string \<Rightarrow> (rat \<times> string) option" where
  "read_number cs =
     (let neg = (cs \<noteq> [] \<and> hd cs = CHR ''-'');
          r = (if neg then tl cs else cs)
      in if r = [] then None
         else (case (if hd r = CHR ''0'' then (0, 1, tl r) else read_digits r 0 0) of
           (i, n, r1) \<Rightarrow>
             if n = 0 then None
             else (case read_fraction r1 of
               None \<Rightarrow> None
             | Some (f, r2) \<Rightarrow>
                 (case read_exponent r2 of
                    None \<Rightarrow> None
                  | Some (e, r3) \<Rightarrow> Some ((if neg then - 1 else 1) * (of_int i + f) * e, r3)))))"

fun read_string :: "string \<Rightarrow> string \<Rightarrow> (string \<times> string) option" where
  "read_string [] acc = None"
| "read_string [c] acc = (if c = CHR 0x22 then Some (acc, []) else None)"
| "read_string (c # e # cs) acc =
     (if c = CHR 0x22 then Some (acc, e # cs)
      else if c = CHR 0x5C then
        (if e = CHR 0x22 \<or> e = CHR 0x5C \<or> e = CHR ''/'' then read_string cs (acc @ [e])
         else if e = CHR ''b'' then read_string cs (acc @ [CHR 0x08])
         else if e = CHR ''f'' then read_string cs (acc @ [CHR 0x0C])
         else if e = CHR ''n'' then read_string cs (acc @ [CHR 0x0A])
         else if e = CHR ''r'' then read_string cs (acc @ [CHR 0x0D])
         else if e = CHR ''t'' then read_string cs (acc @ [CHR 0x09])
         else if e = CHR ''u'' then
           (case map hex_val (take 4 cs) of
              [Some a, Some b, Some c', Some d] \<Rightarrow>
                if a = 0 \<and> b = 0 then read_string (drop 4 cs) (acc @ [char_of (nat (16 * c' + d))])
                else None
            | _ \<Rightarrow> None)
         else None)
      else if (of_char c :: nat) < 32 then None
      else read_string (e # cs) (acc @ [c]))"

fun read_value :: "nat \<Rightarrow> string \<Rightarrow> (jsval \<times> string) option"
  and read_elements :: "nat \<Rightarrow> string \<Rightarrow> jsval list \<Rightarrow> (jsval list \<times> string) option"
  and read_members :: "nat \<Rightarrow> string \<Rightarrow> (string \<times> jsval) list \<Rightarrow> ((string \<times> jsval) list \<times> string) option"
where
  "read_value 0 cs = None"
| "read_value (Suc n) cs =
     (let ds = skip_ws cs in
      if ds = [] then None
      else if hd ds = CHR ''{'' then
        (let r = skip_ws (tl ds) in
         if r \<noteq> [] \<and> hd r = CHR ''}'' then Some (JObj [], tl r)
         else map_option (apfst JObj) (read_members n r []))
      else if hd ds = CHR ''['' then
        (let r = skip_ws (tl ds) in
         if r \<noteq> [] \<and> hd r = CHR '']'' then Some (JArr [], tl r)
         else map_option (apfst JArr) (read_elements n r []))
      else if hd ds = CHR 0x22 then map_option (apfst JStr) (read_string (tl ds) [])
      else if take 4 ds = ''true'' then Some (JBool True, drop 4 ds)
      else if take 5 ds = ''false'' then Some (JBool False, drop 5 ds)
      else if take 4 ds = ''null'' then Some (JNull, drop 4 ds)
      else map_option (apfst JNum) (read_number ds))"
| "read_elements 0 cs acc = None"
| "read_elements (Suc n) cs acc =
     (case read_value n cs of
        None \<Rightarrow> None
      | Some (v, r) \<Rightarrow>
          (let r' = skip_ws r in
           if r' = [] then None
           else if hd r' = CHR '','' then read_elements n (tl r') (acc @ [v])
           else if hd r' = CHR '']'' then Some (acc @ [v], tl r')
           else None))"
| "read_members 0 cs acc = None"
| "read_members (Suc n) cs acc =
     (let ds = skip_ws cs in
      if ds = [] then None
      else if hd ds = CHR 0x22 then
        (case read_string (tl ds) [] of
           None \<Rightarrow> None
         | Some (k, r) \<Rightarrow>
             (let r1 = skip_ws r in
              if r1 = [] then None
              else if hd r1 = CHR '':'' then
                (case read_value n (tl r1) of
                   None \<Rightarrow> None
                 | Some (v, r2) \<Rightarrow>
                     (let r3 = skip_ws r2; acc' = filter (\<lambda>kv. fst kv \<noteq> k) acc @ [(k, v)] in
                      if r3 = [] then None
                      else if hd r3 = CHR '','' then read_members n (tl r3) acc'
                      else if hd r3 = CHR ''}'' then Some (acc', tl r3)
                      else None))
              else None))
      else None)"

definition js_JSON_parse :: "string \<Rightarrow> jsval option" where
  "js_JSON_parse text =
     (case read_value (Suc (length text)) text of
        None \<Rightarrow> None
      | Some (v, r) \<Rightarrow> if skip_ws r = [] then Some v else None)"


definition digit_char :: "int \<Rightarrow> char" where
  "digit_char d = ''0123456789abcdef'' ! nat d"

function int_digits :: "int \<Rightarrow> string" where
  "int_digits n = (if n < 10 then [digit_char n] else int_digits (n div 10) @ [digit_char (n mod 10)])"
  by auto
termination
  by (relation "measure nat") auto

declare int_digits.simps [simp del]

fun fraction_digits :: "nat \<Rightarrow> int \<Rightarrow> int \<Rightarrow> string" where
  "fraction_digits 0 r d = []"
| "fraction_digits (Suc fuel) r d =
     (if r = 0 then [] else digit_char (10 * r div d) # fraction_digits fuel (10 * r mod d) d)"

definition number_string :: "rat \<Rightarrow> string" where
  "number_string q =
     (let (a, d) = quotient_of q; m = \<bar>a\<bar>
      in (if a < 0 then ''-'' else []) @ int_digits (m div d) @
         (if m mod d = 0 then [] else ''.'' @ fraction_digits 17 (m mod d) d))"

definition quote_char :: "char \<Rightarrow> string" where
  "quote_char c =
     (if c = CHR 0x22 then [CHR 0x5C, CHR 0x22]
      else if c = CHR 0x5C then [CHR 0x5C, CHR 0x5C]
      else if c = CHR 0x08 then [CHR 0x5C, CHR ''b'']
      else if c = CHR 0x0C then [CHR 0x5C, CHR ''f'']
      else if c = CHR 0x0A then [CHR 0x5C, CHR ''n'']
      else if c = CHR 0x0D then [CHR 0x5C, CHR ''r'']
      else if c = CHR 0x09 then [CHR 0x5C, CHR ''t'']
      else if (of_char c :: nat) < 32 then
        [CHR 0x5C, CHR ''u'', CHR ''0'', CHR ''0'',
         digit_char (of_char c div 16), digit_char (of_char c mod 16)]
      else [c])"

definition quote :: "string \<Rightarrow> string" where
  "quote s = [CHR 0x22] @ concat (map quote_char s) @ [CHR 0x22]"

fun join :: "string \<Rightarrow> string list \<Rightarrow> string" where
  "join sep [] = []"
| "join sep [x] = x"
| "join sep (x # y # ys) = x @ sep @ join sep (y # ys)"

fun js_JSON_stringify :: "jsval \<Rightarrow> string" where
  "js_JSON_stringify JUndefined = ''null''"
| "js_JSON_stringify JNull = ''null''"
| "js_JSON_stringify (JBool b) = (if b then ''true'' else ''false'')"
| "js_JSON_stringify (JNum q) = number_string q"
| "js_JSON_stringify (JStr s) = quote s"
| "js_JSON_stringify (JArr xs) = ''['' @ join '','' (map js_JSON_stringify xs) @ '']''"
| "js_JSON_stringify (JObj kvs) =
     ''{'' @ join '','' (map (\<lambda>kv. quote (fst kv) @ '':'' @ js_JSON_stringify (snd kv))
                          (filter (\<lambda>kv. snd kv \<noteq> JUndefined) kvs)) @ ''}''"

fun js_ToString :: "jsval \<Rightarrow> string" where
  "js_ToString JUndefined = ''undefined''"
| "js_ToString JNull = ''null''"
| "js_ToString (JBool b) = (if b then ''true'' else ''false'')"
| "js_ToString (JNum q) = number_string q"
| "js_ToString (JStr s) = s"
| "js_ToString (JArr xs) =
     join '','' (map (\<lambda>x. if x = JNull \<or> x = JUndefined then [] else js_ToString x) xs)"
| "js_ToString (JObj kvs) = ''[object Object]''"

definition trim_ws :: "string \<Rightarrow> string" where
  "trim_ws s = rev (skip_ws (rev (skip_ws s)))"

definition js_StringToNumber :: "string \<Rightarrow> rat option" where
  "js_StringToNumber s =
     (let t = trim_ws s in
      if t = [] then Some 0
      else (case read_number (if hd t = CHR ''+'' then tl t else t) of
              Some (q, r) \<Rightarrow> if r = [] then Some q else None
            | None \<Rightarrow> None))"

definition js_platform :: platform where
  "js_platform =
     \<lparr>JSON_parse = js_JSON_parse, JSON_stringify = js_JSON_stringify,
      ToString = js_ToString, StringToNumber = js_StringToNumber\<rparr>"

subsection \<open>Example stores\<close>

text \<open>
  The scenario of the specification: item A in \<open>tops\<close> with image \<open>img1\<close>, marked as a
  favourite.
\<close>

definition now0 :: string where
  "now0 = ''2026-01-01T00:00:00.000Z''"

definition itemA :: item where
  "itemA =
     \<lparr>item_id = 1, imageId = Some 1001, category = ''tops'', favorite = True, laundry = False,
      dateAdded = ''2025-12-24T09:00:00.000Z'', deleted = None, deletedDate = None,
      originalCategory = None\<rparr>"

definition img1 :: image where
  "img1 = \<lparr>image_id = 1001, image_data = ''data:image/png;base64,AAAA''\<rparr>"

definition wardrobe_db :: db where
  "wardrobe_db = empty_db\<lparr>items := [itemA], images := [img1]\<rparr>"

text \<open>An item whose category is the empty string, as an imported backup can carry it.\<close>

definition uncategorised_db :: db where
  "uncategorised_db = empty_db\<lparr>items := [itemA\<lparr>category := ''''\<rparr>], images := [img1]\<rparr>"

text \<open>A trash entry that carries no \<open>originalCategory\<close>.\<close>

definition orphan_entry :: item where
  "orphan_entry = itemA\<lparr>deleted := Some True, deletedDate := Some now0\<rparr>"

definition orphan_db :: db where
  "orphan_db = empty_db\<lparr>trash := [orphan_entry], images := [img1]\<rparr>"

text \<open>A shopping entry with a picture, as \<open>App.addShoppingItem\<close> stores it.\<close>

definition boots :: shoppingItem where
  "boots =
     \<lparr>shop_id = 1, shop_name = ''Boots'', shop_desc = ''brown, ankle'', shop_price = ''$80'',
      shop_imageId = Some 1767225600000\<rparr>"

definition boots_image :: image where
  "boots_image = \<lparr>image_id = 1767225600000, image_data = ''data:image/jpeg;base64,BBBB''\<rparr>"

definition shopping_db :: db where
  "shopping_db = empty_db\<lparr>shoppingList := [boots], images := [boots_image]\<rparr>"

text \<open>Two engines: one that fails no request, one that fails \<open>trashStore.clear()\<close>.\<close>

definition engine_ok :: "request \<Rightarrow> bool" where
  "engine_ok r = False"

definition engine_fails_clear :: "request \<Rightarrow> bool" where
  "engine_fails_clear r = (r = Clear Trash)"

text \<open>A trash with one entry, beside an active item; each has its image.\<close>

definition purge_db :: db where
  "purge_db =
     empty_db\<lparr>items := [itemA\<lparr>item_id := 3, imageId := Some 1003\<rparr>],
              trash := [orphan_entry],
              images := [img1, \<lparr>image_id = 1003, image_data = ''data:image/png;base64,DDDD''\<rparr>]\<rparr>"

text \<open>A trash entry whose image is stored under the key \<open>0\<close>.\<close>

definition zero_entry :: item where
  "zero_entry = itemA\<lparr>item_id := 2, imageId := Some 0, deleted := Some True, deletedDate := Some now0,
                       originalCategory := Some ''tops''\<rparr>"

definition zero_image :: image where
  "zero_image = \<lparr>image_id = 0, image_data = ''data:image/png;base64,CCCC''\<rparr>"

definition zero_db :: db where
  "zero_db = empty_db\<lparr>trash := [zero_entry], images := [zero_image]\<rparr>"

text \<open>The custom section 5 with one item in it, beside item A.\<close>

definition scarf :: item where
  "scarf = itemA\<lparr>item_id := 4, imageId := Some 1004, category := ''custom-5'', favorite := False\<rparr>"

definition section_db :: db where
  "section_db =
     empty_db\<lparr>items := [itemA, scarf],
              customSections := [\<lparr>section_id = 5, section_name = ''Scarves'', section_items = []\<rparr>]\<rparr>"

text \<open>A run of planner calls that repeats ids.\<close>

definition monday_calls :: "weekly_call list" where
  "monday_calls =
     [AddToWeeklyOutfit ''Monday'' 1, AddToWeeklyOutfit ''Monday'' 1, OpenWeeklyModal ''Monday'',
      AddToWeeklyFromModal 1, AddToWeeklyFromModal 2, OpenWeeklyModal ''Monday'',
      AddToWeeklyFromModal 2, AddToWeeklyOutfit ''Sunday'' 1]"

definition monday_db :: db where
  "monday_db = snd (weekly_run monday_calls (None, planner_db))"

text \<open>Settings in which the temperature unit was saved, as \<open>setSetting\<close> writes a string.\<close>

definition celsius_ls :: localStorage where
  "celsius_ls = [''wardrobe_tempUnit'' \<mapsto> ''celsius'']"



text \<open>
  Settings that hold a cached forecast stamped 2026-01-01T00:00:00Z, a network that is
  down and one that answers, and the URL parts for the default location.
\<close>




definition cache_ls :: localStorage where
  \<open>cache_ls = [''wardrobe_weatherCache'' \<mapsto> ''{"data":{"temp":72},"timestamp":1767225600000}'']\<close>

definition cache_payload :: jsval where
  "cache_payload = JObj [(''temp'', JNum 72)]"

definition fresh_payload :: jsval where
  "fresh_payload = JObj [(''temp'', JNum 75)]"

definition net_down :: "weather_url \<Rightarrow> fetch_outcome" where
  "net_down url = Rejected"

definition net_up :: "weather_url \<Rightarrow> fetch_outcome" where
  "net_up url = Response True 200 (Some fresh_payload)"

definition denton_url :: weather_url where
  "denton_url = (''33.2148'', ''-97.1331'', ''fahrenheit'')"

text \<open>The backup of \<open>shopping_db\<close>, and the store that importing it into an empty one gives.\<close>

definition shopping_backup :: document where
  "shopping_backup = exportAllData js_platform now0 shopping_db Map.empty"

definition reimported_db :: db where
  "reimported_db = fst (snd (import_records js_platform (Some shopping_backup) empty_db Map.empty))"

section \<open>Properties\<close>

subsection \<open>Object stores\<close>

lemma store_get_delete:
  "store_get kp k (store_delete kp k' rs) = (if k = k' then None else store_get kp k rs)"
  by (induction rs) (auto simp: store_get_def store_delete_def)

lemma find_insort_key:
  "\<forall>y\<in>set xs. kp y \<noteq> kp r \<Longrightarrow>
   find (\<lambda>x. kp x = k) (insort_key kp r xs) = (if kp r = k then Some r else find (\<lambda>x. kp x = k) xs)"
  by (induction xs) auto

lemma store_get_put:
  "store_get kp k (store_put kp r rs) = (if k = kp r then Some r else store_get kp k rs)"
proof -
  have "\<forall>y\<in>set (store_delete kp (kp r) rs). kp y \<noteq> kp r"
    by (simp add: store_delete_def)
  then have "store_get kp k (store_put kp r rs) =
      (if kp r = k then Some r else store_get kp k (store_delete kp (kp r) rs))"
    unfolding store_put_def store_get_def by (rule find_insort_key)
  then show ?thesis
    by (auto simp: store_get_delete)
qed

lemma store_get_Some:
  "store_get kp k rs = Some r \<Longrightarrow> kp r = k \<and> r \<in> set rs"
  by (auto simp: store_get_def find_Some_iff)

lemma store_get_None:
  "store_get kp k rs = None \<longleftrightarrow> (\<forall>r\<in>set rs. kp r \<noteq> k)"
  by (auto simp: store_get_def find_None_iff)

lemma set_store_put:
  "set (store_put kp r rs) = insert r {x \<in> set rs. kp x \<noteq> kp r}"
  by (auto simp: store_put_def store_delete_def set_insort_key)

lemma set_store_delete:
  "set (store_delete kp k rs) = {x \<in> set rs. kp x \<noteq> k}"
  by (auto simp: store_delete_def)

lemmas storage_defs =
  saveItem_def getItem_def Storage_deleteItem_def saveToTrash_def restoreFromTrash_def logged_def

subsection \<open>Restoring from the trash\<close>

lemma restoreItem_result:
  assumes "store_get item_id k (trash s) = Some e"
  shows "getItem k (App_restoreItem k s) =
           Some (e\<lparr>deleted := Some False, category := category_or_other (originalCategory e),
                   deletedDate := None, originalCategory := None\<rparr>)"
    and "store_get item_id k (trash (App_restoreItem k s)) = None"
proof -
  have k: "item_id e = k" using store_get_Some[OF assms] by simp
  show "getItem k (App_restoreItem k s) =
           Some (e\<lparr>deleted := Some False, category := category_or_other (originalCategory e),
                   deletedDate := None, originalCategory := None\<rparr>)"
    using assms k by (simp add: App_restoreItem_def storage_defs store_get_put)
  show "store_get item_id k (trash (App_restoreItem k s)) = None"
    using assms by (simp add: App_restoreItem_def storage_defs store_get_delete)
qed

lemma restoreItem_frame:
  "k' \<noteq> k \<Longrightarrow>
     getItem k' (App_restoreItem k s) = getItem k' s
     \<and> store_get item_id k' (trash (App_restoreItem k s)) = store_get item_id k' (trash s)"
  "images (App_restoreItem k s) = images s"
proof -
  show "images (App_restoreItem k s) = images s"
    by (cases "store_get item_id k (trash s)") (simp_all add: App_restoreItem_def storage_defs)
  assume n: "k' \<noteq> k"
  show "getItem k' (App_restoreItem k s) = getItem k' s
     \<and> store_get item_id k' (trash (App_restoreItem k s)) = store_get item_id k' (trash s)"
  proof (cases "store_get item_id k (trash s)")
    case None
    then show ?thesis using n by (simp add: App_restoreItem_def storage_defs store_get_delete)
  next
    case (Some e)
    then have "item_id e = k" using store_get_Some[OF Some] by simp
    then show ?thesis using n Some
      by (simp add: App_restoreItem_def storage_defs store_get_delete store_get_put)
  qed
qed

text \<open>
  Claim C10. \<open>App.restoreItem\<close> takes the trash entry stored under the id and stores that
  very record as an active item with \<open>deleted = false\<close>, without its \<open>deletedDate\<close>
  and \<open>originalCategory\<close> fields, in category \<open>other\<close> when the entry's
  \<open>originalCategory\<close> is missing or empty and in the recorded category otherwise; the
  entry leaves the trash, and no other item, trash entry or image changes.
\<close>

theorem C10_restoreItem_defaults:
  assumes "store_get item_id k (trash s) = Some e"
  shows "((originalCategory e = None \<or> originalCategory e = Some []) \<longrightarrow>
            getItem k (App_restoreItem k s) =
              Some (e\<lparr>deleted := Some False, category := ''other'', deletedDate := None,
                      originalCategory := None\<rparr>))
       \<and> (\<forall>c. originalCategory e = Some c \<and> c \<noteq> [] \<longrightarrow>
            getItem k (App_restoreItem k s) =
              Some (e\<lparr>deleted := Some False, category := c, deletedDate := None,
                      originalCategory := None\<rparr>))
       \<and> store_get item_id k (trash (App_restoreItem k s)) = None
       \<and> (\<forall>k'. k' \<noteq> k \<longrightarrow>
            getItem k' (App_restoreItem k s) = getItem k' s
            \<and> store_get item_id k' (trash (App_restoreItem k s)) = store_get item_id k' (trash s))
       \<and> images (App_restoreItem k s) = images s"
  using restoreItem_result[OF assms] restoreItem_frame(1)[of _ k s] restoreItem_frame(2)[of k s] by auto

lemma orphan_db_eval:
  "store_get item_id 1 (trash orphan_db) = Some orphan_entry
   \<and> originalCategory orphan_entry = None
   \<and> items (App_restoreItem 1 orphan_db) = [itemA\<lparr>deleted := Some False, category := ''other''\<rparr>]
   \<and> trash (App_restoreItem 1 orphan_db) = []
   \<and> store_get item_id 1 (trash (App_deleteItem now0 1 uncategorised_db)) =
       Some (itemA\<lparr>category := '''', deleted := Some True, deletedDate := Some now0,
                   originalCategory := Some ''''\<rparr>)
   \<and> items (App_restoreItem 1 (App_deleteItem now0 1 uncategorised_db)) =
       [itemA\<lparr>deleted := Some False, category := ''other''\<rparr>]
   \<and> store_get item_id 1 (trash (App_deleteItem now0 1 wardrobe_db)) =
       Some (itemA\<lparr>deleted := Some True, deletedDate := Some now0, originalCategory := Some ''tops''\<rparr>)
   \<and> items (App_restoreItem 1 (App_deleteItem now0 1 wardrobe_db)) = [itemA\<lparr>deleted := Some False\<rparr>]"
  by (simp add: orphan_db_def orphan_entry_def uncategorised_db_def wardrobe_db_def itemA_def empty_db_def
      store_get_def App_restoreItem_def App_deleteItem_def storage_defs store_put_def store_delete_def)

text \<open>
  Three restores: an entry without \<open>originalCategory\<close> and one whose
  \<open>originalCategory\<close> is the empty string come back in \<open>other\<close>; item A, deleted from
  \<open>tops\<close>, comes back in \<open>tops\<close>.
\<close>

theorem C10_restoreItem_defaults_witness:
  "store_get item_id 1 (trash orphan_db) = Some orphan_entry
   \<and> originalCategory orphan_entry = None
   \<and> items (App_restoreItem 1 orphan_db) = [itemA\<lparr>deleted := Some False, category := ''other''\<rparr>]
   \<and> trash (App_restoreItem 1 orphan_db) = []
   \<and> store_get item_id 1 (trash (App_deleteItem now0 1 uncategorised_db)) =
       Some (itemA\<lparr>category := '''', deleted := Some True, deletedDate := Some now0,
                   originalCategory := Some ''''\<rparr>)
   \<and> items (App_restoreItem 1 (App_deleteItem now0 1 uncategorised_db)) =
       [itemA\<lparr>deleted := Some False, category := ''other''\<rparr>]
   \<and> store_get item_id 1 (trash (App_deleteItem now0 1 wardrobe_db)) =
       Some (itemA\<lparr>deleted := Some True, deletedDate := Some now0, originalCategory := Some ''tops''\<rparr>)
   \<and> items (App_restoreItem 1 (App_deleteItem now0 1 wardrobe_db)) = [itemA\<lparr>deleted := Some False\<rparr>]"
  using C10_restoreItem_defaults[of 1 orphan_db orphan_entry]
    C10_restoreItem_defaults[of 1 "App_deleteItem now0 1 uncategorised_db"]
    C10_restoreItem_defaults[of 1 "App_deleteItem now0 1 wardrobe_db"]
  by - (rule orphan_db_eval)

subsection \<open>Deleting and restoring an item\<close>

lemma is_category_nonempty: "is_category c \<Longrightarrow> c \<noteq> []"
  by (auto simp: is_category_def)

text \<open>
  Claim C2. For every active item whose category is not the empty string, as every
  category of the data model is (\<open>is_category_nonempty\<close>), \<open>App.deleteItem\<close> moves the
  record to the trash with \<open>deleted = true\<close>, the deletion date and
  \<open>originalCategory\<close> set to its category, and \<open>App.restoreItem\<close> then
  stores the original record again with \<open>deleted = false\<close>, its category equal to the
  recorded \<open>originalCategory\<close>, its \<open>favorite\<close> flag as before and without the two trash
  fields; the trash holds no entry for the id afterwards.
\<close>

theorem C2_delete_then_restore:
  assumes "getItem k s = Some it" and "category it \<noteq> []"
  shows "store_get item_id k (trash (App_deleteItem now k s)) =
           Some (it\<lparr>deleted := Some True, deletedDate := Some now, originalCategory := Some (category it)\<rparr>)
         \<and> getItem k (App_deleteItem now k s) = None
         \<and> (\<exists>r. getItem k (App_restoreItem k (App_deleteItem now k s)) = Some r
                \<and> r = it\<lparr>deleted := Some False, deletedDate := None, originalCategory := None\<rparr>
                \<and> deleted r = Some False \<and> category r = category it \<and> favorite r = favorite it)
         \<and> store_get item_id k (trash (App_restoreItem k (App_deleteItem now k s))) = None"
proof -
  have k: "item_id it = k" using store_get_Some[OF assms(1)[unfolded getItem_def]] by simp
  let ?e = "it\<lparr>deleted := Some True, deletedDate := Some now, originalCategory := Some (category it)\<rparr>"
  have t: "store_get item_id k (trash (App_deleteItem now k s)) = Some ?e"
    using assms(1) k by (simp add: App_deleteItem_def storage_defs store_get_put)
  have g: "getItem k (App_deleteItem now k s) = None"
    using assms(1) by (simp add: App_deleteItem_def storage_defs store_get_delete)
  have r: "getItem k (App_restoreItem k (App_deleteItem now k s)) =
      Some (it\<lparr>deleted := Some False, deletedDate := None, originalCategory := None\<rparr>)"
    using restoreItem_result(1)[OF t] assms(2) by simp
  show ?thesis
    using t g r restoreItem_result(2)[OF t] by simp
qed

text \<open>The scenario: item A, a favourite in \<open>tops\<close>, deleted and restored.\<close>

theorem C2_delete_then_restore_witness:
  "getItem 1 wardrobe_db = Some itemA \<and> category itemA \<noteq> []
   \<and> trash (App_deleteItem now0 1 wardrobe_db) =
       [itemA\<lparr>deleted := Some True, deletedDate := Some now0, originalCategory := Some ''tops''\<rparr>]
   \<and> items (App_deleteItem now0 1 wardrobe_db) = []
   \<and> items (App_restoreItem 1 (App_deleteItem now0 1 wardrobe_db)) = [itemA\<lparr>deleted := Some False\<rparr>]
   \<and> trash (App_restoreItem 1 (App_deleteItem now0 1 wardrobe_db)) = []"
  using C2_delete_then_restore[of 1 wardrobe_db itemA now0]
  by (simp add: wardrobe_db_def itemA_def empty_db_def store_get_def
      App_restoreItem_def App_deleteItem_def storage_defs store_put_def store_delete_def)

subsection \<open>Deleting a shopping entry\<close>

lemma deleteShoppingItem_images: "images (App_deleteShoppingItem k s) = images s"
  by (simp add: App_deleteShoppingItem_def Storage_deleteShoppingItem_def logged_def)

text \<open>
  Claim C8 says that deleting a shopping entry with an image also deletes the image
  record. \<open>App.deleteShoppingItem\<close> issues one request, on \<open>shoppingList\<close>: in
  \<open>shopping_db\<close> the image of the deleted entry stays in \<open>images\<close>, where no record
  refers to it any more.
\<close>

theorem C8_deleteShoppingItem_leaves_image:
  "shop_imageId boots = Some (image_id boots_image)
   \<and> shoppingList (App_deleteShoppingItem 1 shopping_db) = []
   \<and> items (App_deleteShoppingItem 1 shopping_db) = []
   \<and> trash (App_deleteShoppingItem 1 shopping_db) = []
   \<and> images (App_deleteShoppingItem 1 shopping_db) = [boots_image]
   \<and> getImage 1767225600000 (App_deleteShoppingItem 1 shopping_db) = Some ''data:image/jpeg;base64,BBBB''"
  by (simp add: shopping_db_def boots_def boots_image_def empty_db_def App_deleteShoppingItem_def
      Storage_deleteShoppingItem_def logged_def store_delete_def getImage_def store_get_def)

subsection \<open>Emptying the trash\<close>

lemma find_via_filter:
  "find P xs = (case filter P xs of [] \<Rightarrow> None | x # ys \<Rightarrow> Some x)"
  by (induction xs) auto

text \<open>What the loop of \<open>emptyTrash\<close> leaves when no request fails.\<close>

lemma delete_trash_images_Some:
  "delete_trash_images fails its s = Some s1 \<Longrightarrow>
     trash s1 = trash s \<and> items s1 = items s \<and> weeklyPlan s1 = weeklyPlan s
     \<and> savedOutfits s1 = savedOutfits s \<and> customSections s1 = customSections s
     \<and> shoppingList s1 = shoppingList s
     \<and> images s1 = filter (\<lambda>r. \<not> (\<exists>e\<in>set its. imageId e = Some (image_id r) \<and> image_id r \<noteq> 0)) (images s)"
proof (induction its arbitrary: s)
  case Nil
  then show ?case by simp
next
  case (Cons it its)
  show ?case
  proof (cases "imageId it")
    case None
    with Cons show ?thesis by simp
  next
    case (Some k)
    show ?thesis
    proof (cases "k = 0")
      case True
      with Cons Some show ?thesis by (auto intro: filter_cong)
    next
      case False
      with Cons.prems Some have nf: "\<not> fails (Delete Images (NumKey k))"
        and rest: "delete_trash_images fails its
            (logged (Delete Images (NumKey k)) (s\<lparr>images := store_delete image_id k (images s)\<rparr>)) = Some s1"
        by (auto split: if_splits)
      from Cons.IH[OF rest] Some False show ?thesis
        by (auto simp: logged_def store_delete_def intro: filter_cong)
    qed
  qed
qed

lemma delete_trash_images_ok:
  "\<forall>r. \<not> fails r \<Longrightarrow> \<exists>s1. delete_trash_images fails its s = Some s1"
  by (induction its arbitrary: s) (auto split: option.splits)

text \<open>
  Claim C1, as the program has it. When \<open>emptyTrash\<close> resolves, the trash is empty, the
  image stored under the \<open>imageId\<close> of each former trash entry is gone where that
  \<open>imageId\<close> is truthy (neither \<open>null\<close> nor \<open>0\<close>), and every image whose key is the
  \<open>imageId\<close> of no trash entry is as before, as are the active items and the shopping
  list. When it rejects, the database is as it was. It resolves whenever the engine
  fails no request.
\<close>

theorem C1_emptyTrash_transaction:
  "(\<forall>s'. Storage_emptyTrash fails s = (Inr (), s') \<longrightarrow>
       trash s' = []
       \<and> (\<forall>e\<in>set (trash s). \<forall>k. imageId e = Some k \<and> truthy_id (Some k) \<longrightarrow> store_get image_id k (images s') = None)
       \<and> (\<forall>k. (\<forall>e\<in>set (trash s). imageId e \<noteq> Some k) \<longrightarrow>
              store_get image_id k (images s') = store_get image_id k (images s))
       \<and> items s' = items s \<and> shoppingList s' = shoppingList s)
   \<and> (\<forall>err s'. Storage_emptyTrash fails s = (Inl err, s') \<longrightarrow> s' = s)
   \<and> ((\<forall>r. \<not> fails r) \<longrightarrow> (\<exists>s'. Storage_emptyTrash fails s = (Inr (), s')))"
proof (intro conjI allI impI)
  fix s' assume ok: "Storage_emptyTrash fails s = (Inr (), s')"
  then obtain s1 where s1: "delete_trash_images fails (trash s) s = Some s1"
    and s': "s' = logged (Clear Trash) (s1\<lparr>trash := []\<rparr>)"
    by (auto simp: Storage_emptyTrash_def split: if_splits option.splits)
  note d = delete_trash_images_Some[OF s1]
  show "trash s' = []" by (simp add: s' logged_def)
  show "items s' = items s" using d by (simp add: s' logged_def)
  show "shoppingList s' = shoppingList s" using d by (simp add: s' logged_def)
  have img: "images s' = filter (\<lambda>r. \<not> (\<exists>e\<in>set (trash s). imageId e = Some (image_id r) \<and> image_id r \<noteq> 0)) (images s)"
    using d by (simp add: s' logged_def)
  show "\<forall>e\<in>set (trash s). \<forall>k. imageId e = Some k \<and> truthy_id (Some k) \<longrightarrow> store_get image_id k (images s') = None"
    unfolding img store_get_None by auto
  show "store_get image_id k (images s') = store_get image_id k (images s)"
    if "\<forall>e\<in>set (trash s). imageId e \<noteq> Some k" for k
  proof -
    have "filter (\<lambda>r. image_id r = k) (images s') = filter (\<lambda>r. image_id r = k) (images s)"
      unfolding img using that by (auto intro: filter_cong)
    then show ?thesis
      by (simp add: store_get_def find_via_filter)
  qed
next
  fix err s' assume "Storage_emptyTrash fails s = (Inl err, s')"
  then show "s' = s"
    by (auto simp: Storage_emptyTrash_def split: if_splits option.splits)
next
  assume nf: "\<forall>r. \<not> fails r"
  from delete_trash_images_ok[OF nf] obtain s1 where "delete_trash_images fails (trash s) s = Some s1"
    by blast
  then show "\<exists>s'. Storage_emptyTrash fails s = (Inr (), s')"
    using nf by (simp add: Storage_emptyTrash_def)
qed

lemma purge_db_eval:
  "Storage_emptyTrash engine_ok purge_db =
     (Inr (), purge_db\<lparr>trash := [],
                        images := [\<lparr>image_id = 1003, image_data = ''data:image/png;base64,DDDD''\<rparr>],
                        journal := [Delete Images (NumKey 1001), Clear Trash]\<rparr>)
   \<and> Storage_emptyTrash engine_fails_clear purge_db = (Inl TransactionError, purge_db)"
  by (simp add: Storage_emptyTrash_def engine_ok_def engine_fails_clear_def purge_db_def
      orphan_entry_def itemA_def img1_def empty_db_def logged_def store_delete_def)

text \<open>
  On \<open>purge_db\<close> a sound engine purges the entry and its image and keeps the image of
  the active item; an engine that fails the final \<open>clear\<close> leaves everything in place,
  the image already deleted inside the transaction included.
\<close>

theorem C1_emptyTrash_transaction_witness:
  "Storage_emptyTrash engine_ok purge_db =
     (Inr (), purge_db\<lparr>trash := [],
                        images := [\<lparr>image_id = 1003, image_data = ''data:image/png;base64,DDDD''\<rparr>],
                        journal := [Delete Images (NumKey 1001), Clear Trash]\<rparr>)
   \<and> Storage_emptyTrash engine_fails_clear purge_db = (Inl TransactionError, purge_db)"
  using C1_emptyTrash_transaction[of engine_ok purge_db]
    C1_emptyTrash_transaction[of engine_fails_clear purge_db]
  by - (rule purge_db_eval)

text \<open>
  Claim C1 as stated fails for a trash entry whose \<open>imageId\<close> is \<open>0\<close>: \<open>emptyTrash\<close>
  resolves, the trash is empty, and the image stored under \<open>0\<close> is still there.
\<close>

theorem C1_zero_imageId_counterexample:
  "trash zero_db = [zero_entry] \<and> imageId zero_entry = Some (image_id zero_image)
   \<and> Storage_emptyTrash engine_ok zero_db = (Inr (), zero_db\<lparr>trash := [], journal := [Clear Trash]\<rparr>)
   \<and> store_get image_id 0 (images (snd (Storage_emptyTrash engine_ok zero_db))) = Some zero_image"
  by (simp add: Storage_emptyTrash_def engine_ok_def zero_db_def zero_entry_def zero_image_def
      itemA_def empty_db_def logged_def store_delete_def store_get_def)

subsection \<open>Deleting a custom section\<close>

lemma find_append_case:
  "find P (xs @ ys) = (case find P xs of None \<Rightarrow> find P ys | Some x \<Rightarrow> Some x)"
  by (induction xs) auto

lemma find_distinct_key:
  "distinct (map f xs) \<Longrightarrow> x \<in> set xs \<Longrightarrow> find (\<lambda>y. f y = f x) xs = Some x"
  by (induction xs) (auto simp: rev_image_eqI)

lemma trash_section_items_frame:
  "items (trash_section_items its s) = filter (\<lambda>x. item_id x \<notin> item_id ` set its) (items s)
   \<and> customSections (trash_section_items its s) = customSections s
   \<and> images (trash_section_items its s) = images s
   \<and> journal (trash_section_items its s) =
       journal s @ concat (map (\<lambda>it. [Put Trash (NumKey (item_id it)), Delete Items (NumKey (item_id it))]) its)"
  by (induction its arbitrary: s)
     (auto simp: saveToTrash_def Storage_deleteItem_def logged_def store_delete_def intro: filter_cong)

text \<open>The trash after the loop: the last item of the loop with a given id wins.\<close>

lemma trash_section_items_trash:
  "store_get item_id k (trash (trash_section_items its s)) =
     (case find (\<lambda>x. item_id x = k) (rev its) of
        Some it \<Rightarrow> Some (it\<lparr>deleted := Some True, originalCategory := Some (category it)\<rparr>)
      | None \<Rightarrow> store_get item_id k (trash s))"
  by (induction its arbitrary: s)
     (auto simp: saveToTrash_def Storage_deleteItem_def logged_def store_get_put find_append_case
       split: option.splits)

lemma section_category_5: "section_category js_platform 5 = ''custom-5''"
  by (simp add: section_category_def js_platform_def number_string_def quotient_of_int
      int_digits.simps digit_char_def)

text \<open>What \<open>App.deleteSection\<close> leaves behind once the dialog is accepted.\<close>

lemma deleteSection_cascade:
  assumes "confirmed" and "distinct (map item_id (items s))"
  shows "(\<forall>it\<in>set (items s). category it = section_category pf sectionId \<longrightarrow>
            store_get item_id (item_id it) (trash (App_deleteSection pf confirmed sectionId s)) =
              Some (it\<lparr>deleted := Some True, originalCategory := Some (category it)\<rparr>)
            \<and> getItem (item_id it) (App_deleteSection pf confirmed sectionId s) = None)
         \<and> items (App_deleteSection pf confirmed sectionId s) =
             filter (\<lambda>i. category i \<noteq> section_category pf sectionId) (items s)
         \<and> store_get section_id sectionId (customSections (App_deleteSection pf confirmed sectionId s)) = None
         \<and> journal (App_deleteSection pf confirmed sectionId s) =
             journal s
             @ concat (map (\<lambda>it. [Put Trash (NumKey (item_id it)), Delete Items (NumKey (item_id it))])
                         (filter (\<lambda>i. category i = section_category pf sectionId) (items s)))
             @ [Delete CustomSections (NumKey sectionId)]"
proof -
  let ?sec = "filter (\<lambda>i. category i = section_category pf sectionId) (items s)"
  let ?s1 = "trash_section_items ?sec s"
  have s': "App_deleteSection pf confirmed sectionId s = deleteCustomSection sectionId ?s1"
    using assms(1) by (simp add: App_deleteSection_def getAllItems_def)
  note fr = trash_section_items_frame[of ?sec s]
  have dsec: "distinct (map item_id (rev ?sec))"
    using assms(2) by (simp add: distinct_map_filter distinct_rev rev_map[symmetric])
  have mem: "item_id x \<in> item_id ` set ?sec \<longleftrightarrow> category x = section_category pf sectionId"
    if "x \<in> set (items s)" for x
    using that assms(2) by (auto simp: distinct_map inj_on_def)
  have it: "items (deleteCustomSection sectionId ?s1) =
      filter (\<lambda>i. category i \<noteq> section_category pf sectionId) (items s)"
    using fr mem by (auto simp: deleteCustomSection_def logged_def intro: filter_cong)
  have tr: "store_get item_id (item_id x) (trash (deleteCustomSection sectionId ?s1)) =
      Some (x\<lparr>deleted := Some True, originalCategory := Some (category x)\<rparr>)"
    if "x \<in> set (items s)" and "category x = section_category pf sectionId" for x
  proof -
    have "x \<in> set (rev ?sec)" using that by simp
    from find_distinct_key[OF dsec this] show ?thesis
      by (simp add: deleteCustomSection_def logged_def trash_section_items_trash)
  qed
  have gone: "getItem (item_id x) (deleteCustomSection sectionId ?s1) = None"
    if "x \<in> set (items s)" and "category x = section_category pf sectionId" for x
    unfolding getItem_def it store_get_None using that assms(2)
    by (auto simp: distinct_map inj_on_def)
  have sec: "store_get section_id sectionId (customSections (deleteCustomSection sectionId ?s1)) = None"
    by (simp add: deleteCustomSection_def logged_def store_get_delete)
  have jr: "journal (deleteCustomSection sectionId ?s1) =
      journal s @ concat (map (\<lambda>it. [Put Trash (NumKey (item_id it)), Delete Items (NumKey (item_id it))]) ?sec)
      @ [Delete CustomSections (NumKey sectionId)]"
    using fr by (simp add: deleteCustomSection_def logged_def)
  show ?thesis
    unfolding s' using it tr gone sec jr by simp
qed

lemma deleteSection_cancelled: "App_deleteSection pf False sectionId s = s"
  by (simp add: App_deleteSection_def)

lemma deleteSection_no_dangling:
  assumes "confirmed" and "distinct (map item_id (items s))" and "no_dangling_section pf s"
  shows "no_dangling_section pf (App_deleteSection pf confirmed sectionId s)"
proof -
  let ?sec = "filter (\<lambda>i. category i = section_category pf sectionId) (items s)"
  let ?s' = "App_deleteSection pf confirmed sectionId s"
  have s': "?s' = deleteCustomSection sectionId (trash_section_items ?sec s)"
    using assms(1) by (simp add: App_deleteSection_def getAllItems_def)
  have cs: "customSections ?s' = store_delete section_id sectionId (customSections s)"
    unfolding s' using trash_section_items_frame[of ?sec s]
    by (simp add: deleteCustomSection_def logged_def)
  have its: "items ?s' = filter (\<lambda>i. category i \<noteq> section_category pf sectionId) (items s)"
    using deleteSection_cascade[OF assms(1,2), of pf sectionId] by blast
  show ?thesis
    unfolding no_dangling_section_def list_all_iff
  proof
    fix it assume "it \<in> set (items ?s')"
    then have m: "it \<in> set (items s)" and ne: "category it \<noteq> section_category pf sectionId"
      unfolding its by auto
    show "if take 7 (category it) = ''custom-'' then section_exists pf ?s' (category it) else True"
    proof (cases "take 7 (category it) = ''custom-''")
      case True
      with assms(3) m have "section_exists pf s (category it)"
        by (auto simp: no_dangling_section_def list_all_iff)
      then obtain x where x: "x \<in> set (customSections s)" "section_category pf (section_id x) = category it"
        by (auto simp: section_exists_def)
      with ne have "section_id x \<noteq> sectionId" by auto
      with x have "section_exists pf ?s' (category it)"
        unfolding section_exists_def cs by (auto simp: set_store_delete intro!: image_eqI[where x = x])
      with True show ?thesis by simp
    next
      case False
      then show ?thesis by simp
    qed
  qed
qed

text \<open>
  Claim C7. After \<open>App.deleteSection\<close> has run with its dialog accepted (on an items
  store that holds one record per id, as an object store does), every item whose
  category was \<open>custom-<id>\<close> is in the trash, with \<open>deleted = true\<close> and its category
  recorded as \<open>originalCategory\<close>, and out of the active items, which keep exactly the
  items of other categories; the section record is gone; the \<open>delete\<close> on
  \<open>customSections\<close> is the last request, after the \<open>put\<close> and \<open>delete\<close> of every
  item; and if no active item referred to a nonexistent section before, none does
  afterwards.
\<close>

theorem C7_deleteSection_cascade:
  assumes "confirmed" and "distinct (map item_id (items s))"
  shows "(\<forall>it\<in>set (items s). category it = section_category pf sectionId \<longrightarrow>
            store_get item_id (item_id it) (trash (App_deleteSection pf confirmed sectionId s)) =
              Some (it\<lparr>deleted := Some True, originalCategory := Some (category it)\<rparr>)
            \<and> getItem (item_id it) (App_deleteSection pf confirmed sectionId s) = None)
         \<and> items (App_deleteSection pf confirmed sectionId s) =
             filter (\<lambda>i. category i \<noteq> section_category pf sectionId) (items s)
         \<and> store_get section_id sectionId (customSections (App_deleteSection pf confirmed sectionId s)) = None
         \<and> journal (App_deleteSection pf confirmed sectionId s) =
             journal s
             @ concat (map (\<lambda>it. [Put Trash (NumKey (item_id it)), Delete Items (NumKey (item_id it))])
                         (filter (\<lambda>i. category i = section_category pf sectionId) (items s)))
             @ [Delete CustomSections (NumKey sectionId)]
         \<and> (no_dangling_section pf s \<longrightarrow>
              no_dangling_section pf (App_deleteSection pf confirmed sectionId s))"
  using deleteSection_cascade[OF assms, of pf sectionId]
    deleteSection_no_dangling[OF assms, of pf sectionId]
  by blast

lemma section_db_eval:
  "distinct (map item_id (items section_db))
   \<and> category scarf = section_category js_platform 5
   \<and> no_dangling_section js_platform section_db
   \<and> App_deleteSection js_platform True 5 section_db =
       section_db\<lparr>items := [itemA],
                  trash := [scarf\<lparr>deleted := Some True, originalCategory := Some ''custom-5''\<rparr>],
                  customSections := [],
                  journal := [Put Trash (NumKey 4), Delete Items (NumKey 4), Delete CustomSections (NumKey 5)]\<rparr>
   \<and> no_dangling_section js_platform (App_deleteSection js_platform True 5 section_db)"
  by (simp add: section_category_5 App_deleteSection_def getAllItems_def section_db_def scarf_def
      itemA_def empty_db_def saveToTrash_def Storage_deleteItem_def deleteCustomSection_def
      logged_def store_put_def store_delete_def no_dangling_section_def section_exists_def)

text \<open>
  Deleting section 5 of \<open>section_db\<close>: the scarf moves to the trash, item A stays, the
  section goes last, and no item refers to a missing section before or after.
\<close>

theorem C7_deleteSection_cascade_witness:
  "distinct (map item_id (items section_db))
   \<and> category scarf = section_category js_platform 5
   \<and> no_dangling_section js_platform section_db
   \<and> App_deleteSection js_platform True 5 section_db =
       section_db\<lparr>items := [itemA],
                  trash := [scarf\<lparr>deleted := Some True, originalCategory := Some ''custom-5''\<rparr>],
                  customSections := [],
                  journal := [Put Trash (NumKey 4), Delete Items (NumKey 4), Delete CustomSections (NumKey 5)]\<rparr>
   \<and> no_dangling_section js_platform (App_deleteSection js_platform True 5 section_db)"
  using C7_deleteSection_cascade[of True section_db js_platform 5]
  by - (rule section_db_eval)

subsection \<open>The weekly planner\<close>

lemma find_SomeD: "find P xs = Some x \<Longrightarrow> x \<in> set xs \<and> P x"
  by (auto simp: find_Some_iff)

lemma saveWeeklyDay_distinct:
  assumes "list_all (\<lambda>p. distinct (day_items p)) (weeklyPlan s)" and "distinct (day_items d)"
  shows "list_all (\<lambda>p. distinct (day_items p)) (weeklyPlan (saveWeeklyDay d s))"
  using assms by (auto simp: saveWeeklyDay_def logged_def list_all_iff set_store_put)

lemma addToWeeklyOutfit_distinct:
  assumes "list_all (\<lambda>p. distinct (day_items p)) (weeklyPlan s)"
  shows "list_all (\<lambda>p. distinct (day_items p)) (weeklyPlan (DragDrop_addToWeeklyOutfit d itemId s))"
proof (cases "find (\<lambda>p. day p = d) (getWeeklyPlan s)")
  case None
  then show ?thesis using assms by (simp add: DragDrop_addToWeeklyOutfit_def)
next
  case (Some p)
  then have "p \<in> set (weeklyPlan s)" by (auto simp: getWeeklyPlan_def dest: find_SomeD)
  with assms have "distinct (day_items p)" by (simp add: list_all_iff)
  then show ?thesis
    using Some assms by (auto simp: DragDrop_addToWeeklyOutfit_def intro!: saveWeeklyDay_distinct)
qed

lemma addToWeeklyFromModal_distinct:
  assumes "list_all (\<lambda>p. distinct (day_items p)) (weeklyPlan (snd a))"
  shows "list_all (\<lambda>p. distinct (day_items p)) (weeklyPlan (snd (App_addToWeeklyFromModal itemId a)))"
proof (cases "fst a")
  case None
  then show ?thesis using assms by (simp add: App_addToWeeklyFromModal_def)
next
  case (Some d)
  show ?thesis
  proof (cases "find (\<lambda>p. day p = d) (getWeeklyPlan (snd a))")
    case None
    then show ?thesis using assms Some by (simp add: App_addToWeeklyFromModal_def)
  next
    case (Some p)
    then have "p \<in> set (weeklyPlan (snd a))" by (auto simp: getWeeklyPlan_def dest: find_SomeD)
    with assms have "distinct (day_items p)" by (simp add: list_all_iff)
    then show ?thesis
      using Some \<open>fst a = Some d\<close> assms
      by (auto simp: App_addToWeeklyFromModal_def App_closeWeeklyModal_def intro!: saveWeeklyDay_distinct)
  qed
qed

lemma weekly_step_distinct:
  assumes "list_all (\<lambda>p. distinct (day_items p)) (weeklyPlan (snd a))"
  shows "list_all (\<lambda>p. distinct (day_items p)) (weeklyPlan (snd (weekly_step c a)))"
  using assms
  by (cases c)
     (simp_all add: App_openWeeklyModal_def App_closeWeeklyModal_def addToWeeklyOutfit_distinct
       addToWeeklyFromModal_distinct)

lemma weekly_run_distinct:
  "list_all (\<lambda>p. distinct (day_items p)) (weeklyPlan (snd a)) \<Longrightarrow>
   list_all (\<lambda>p. distinct (day_items p)) (weeklyPlan (snd (weekly_run calls a)))"
  unfolding weekly_run_def
  by (induction calls arbitrary: a) (simp_all add: weekly_step_distinct)

lemma fold_saveWeeklyDay_distinct:
  "list_all (\<lambda>p. distinct (day_items p)) ds \<Longrightarrow>
   list_all (\<lambda>p. distinct (day_items p)) (weeklyPlan s) \<Longrightarrow>
   list_all (\<lambda>p. distinct (day_items p)) (weeklyPlan (fold saveWeeklyDay ds s))"
  by (induction ds arbitrary: s) (simp_all add: saveWeeklyDay_distinct)

lemma planner_db_distinct: "list_all (\<lambda>p. distinct (day_items p)) (weeklyPlan planner_db)"
  unfolding planner_db_def
  by (rule fold_saveWeeklyDay_distinct) (simp_all add: default_days_def empty_db_def)

text \<open>
  Claim C3. Every sequence of \<open>addToWeeklyOutfit\<close> and \<open>addToWeeklyFromModal\<close> calls,
  with the modal opened and closed at will, keeps every stored plan free of repeated
  ids: from any planner whose plans hold no id twice, and so from the five empty plans
  of a new installation; and an add of an id that the day's plan already holds changes
  nothing, neither the database nor the open modal.
\<close>

theorem C3_weekly_items_distinct:
  "(list_all (\<lambda>p. distinct (day_items p)) (weeklyPlan (snd a)) \<longrightarrow>
      list_all (\<lambda>p. distinct (day_items p)) (weeklyPlan (snd (weekly_run calls a))))
   \<and> list_all (\<lambda>p. distinct (day_items p)) (weeklyPlan (snd (weekly_run calls (cur, planner_db))))
   \<and> (\<forall>p. find (\<lambda>p. day p = d) (weeklyPlan s) = Some p \<and> itemId \<in> set (day_items p) \<longrightarrow>
          DragDrop_addToWeeklyOutfit d itemId s = s
          \<and> (d \<noteq> [] \<longrightarrow> App_addToWeeklyFromModal itemId (Some d, s) = (Some d, s)))"
  using weekly_run_distinct[of a calls] weekly_run_distinct[of "(cur, planner_db)" calls]
    planner_db_distinct
  by (auto simp: DragDrop_addToWeeklyOutfit_def App_addToWeeklyFromModal_def getWeeklyPlan_def)

lemma monday_calls_eval:
  "list_all (\<lambda>p. distinct (day_items p)) (weeklyPlan planner_db)
   \<and> map (\<lambda>p. (day p, day_items p)) (weeklyPlan monday_db) =
       [(''Friday'', []), (''Monday'', [1, 2]), (''Thursday'', []), (''Tuesday'', []), (''Wednesday'', [])]
   \<and> journal monday_db =
       journal planner_db @ [Put WeeklyPlan (StrKey ''Monday''), Put WeeklyPlan (StrKey ''Monday'')]
   \<and> find (\<lambda>p. day p = ''Monday'') (weeklyPlan monday_db) =
       Some \<lparr>day = ''Monday'', day_type = ''Business Casual'', day_items = [1, 2], day_notes = ''''\<rparr>
   \<and> DragDrop_addToWeeklyOutfit ''Monday'' 1 monday_db = monday_db
   \<and> App_addToWeeklyFromModal 1 (Some ''Monday'', monday_db) = (Some ''Monday'', monday_db)"
  by code_simp

text \<open>
  Eight calls on the fresh planner, five of them repeats or misses: Monday holds each id
  once and only two \<open>put\<close> requests were issued.
\<close>

theorem C3_weekly_items_distinct_witness:
  "list_all (\<lambda>p. distinct (day_items p)) (weeklyPlan (snd (None :: string option, planner_db)))
   \<and> list_all (\<lambda>p. distinct (day_items p)) (weeklyPlan (snd (weekly_run monday_calls (None, planner_db))))
   \<and> map (\<lambda>p. (day p, day_items p)) (weeklyPlan monday_db) =
       [(''Friday'', []), (''Monday'', [1, 2]), (''Thursday'', []), (''Tuesday'', []), (''Wednesday'', [])]
   \<and> journal monday_db =
       journal planner_db @ [Put WeeklyPlan (StrKey ''Monday''), Put WeeklyPlan (StrKey ''Monday'')]
   \<and> find (\<lambda>p. day p = ''Monday'') (weeklyPlan monday_db) =
       Some \<lparr>day = ''Monday'', day_type = ''Business Casual'', day_items = [1, 2], day_notes = ''''\<rparr>
   \<and> DragDrop_addToWeeklyOutfit ''Monday'' 1 monday_db = monday_db
   \<and> App_addToWeeklyFromModal 1 (Some ''Monday'', monday_db) = (Some ''Monday'', monday_db)"
  using C3_weekly_items_distinct[where a = "(None, planner_db)" and calls = monday_calls
      and cur = None and d = "''Monday''" and s = monday_db and itemId = 1]
    monday_calls_eval
  by simp

subsection \<open>Reading a setting\<close>

text \<open>
  Claim C4, as the program has it. \<open>getSetting\<close> returns the default when the key was
  never set, and the stored string itself when \<open>JSON.parse\<close> rejects it; on an empty
  \<open>localStorage\<close>, \<open>getSetting('tempUnit', 'fahrenheit')\<close> is \<open>'fahrenheit'\<close>.
\<close>

theorem C4_getSetting_default:
  "(ls (''wardrobe_'' @ k) = None \<longrightarrow> getSetting pf ls k defaultValue = defaultValue)
   \<and> (\<forall>v. ls (''wardrobe_'' @ k) = Some v \<and> JSON_parse pf v = None \<longrightarrow>
          getSetting pf ls k defaultValue = JStr v)
   \<and> getSetting pf Map.empty ''tempUnit'' (JStr ''fahrenheit'') = JStr ''fahrenheit''"
  by (simp add: getSetting_def)

lemma parse_celsius: "JSON_parse js_platform ''celsius'' = None"
  by code_simp

theorem C4_getSetting_default_witness:
  "Map.empty (''wardrobe_'' @ ''tempUnit'') = (None :: string option)
   \<and> getSetting js_platform Map.empty ''tempUnit'' (JStr ''fahrenheit'') = JStr ''fahrenheit''
   \<and> celsius_ls (''wardrobe_'' @ ''tempUnit'') = Some ''celsius''
   \<and> JSON_parse js_platform ''celsius'' = None
   \<and> getSetting js_platform celsius_ls ''tempUnit'' (JStr ''fahrenheit'') = JStr ''celsius''"
  using C4_getSetting_default[of Map.empty "''tempUnit''" js_platform "JStr ''fahrenheit''"]
    C4_getSetting_default[of celsius_ls "''tempUnit''" js_platform "JStr ''fahrenheit''"]
    parse_celsius
  by (simp add: celsius_ls_def)

text \<open>
  Claim C4 as stated fails where the stored value is not JSON: with \<open>celsius\<close> saved as
  the unit, \<open>getSetting('tempUnit', 'fahrenheit')\<close> returns \<open>'celsius'\<close>, not the default.
\<close>

theorem C4_decode_failure_counterexample:
  "celsius_ls (''wardrobe_'' @ ''tempUnit'') = Some ''celsius''
   \<and> JSON_parse js_platform ''celsius'' = None
   \<and> getSetting js_platform celsius_ls ''tempUnit'' (JStr ''fahrenheit'') = JStr ''celsius''
   \<and> JStr ''celsius'' \<noteq> JStr ''fahrenheit''"
  using parse_celsius by (simp add: celsius_ls_def getSetting_def)

subsection \<open>Importing a backup\<close>

lemma image_eta: "\<lparr>image_id = image_id x, image_data = image_data x\<rparr> = x"
  by (cases x) simp

lemma fold_saveImage:
  "fold (\<lambda>img. saveImage (image_id img) (image_data img)) xs s =
     s\<lparr>images := fold (store_put image_id) xs (images s),
       journal := journal s @ map (\<lambda>i. Put Images (NumKey (image_id i))) xs\<rparr>"
  by (induction xs arbitrary: s) (simp_all add: saveImage_def logged_def image_eta)

lemma fold_saveItem:
  "fold saveItem xs s =
     s\<lparr>items := fold (store_put item_id) xs (items s),
       journal := journal s @ map (\<lambda>i. Put Items (NumKey (item_id i))) xs\<rparr>"
  by (induction xs arbitrary: s) (simp_all add: saveItem_def logged_def)

lemma fold_saveWeeklyDay:
  "fold saveWeeklyDay xs s =
     s\<lparr>weeklyPlan := fold (store_put day) xs (weeklyPlan s),
       journal := journal s @ map (\<lambda>p. Put WeeklyPlan (StrKey (day p))) xs\<rparr>"
  by (induction xs arbitrary: s) (simp_all add: saveWeeklyDay_def logged_def)

lemma fold_saveOutfit:
  "fold saveOutfit xs s =
     s\<lparr>savedOutfits := fold (store_put outfit_id) xs (savedOutfits s),
       journal := journal s @ map (\<lambda>x. Put SavedOutfits (NumKey (outfit_id x))) xs\<rparr>"
  by (induction xs arbitrary: s) (simp_all add: saveOutfit_def logged_def)

lemma fold_saveCustomSection:
  "fold saveCustomSection xs s =
     s\<lparr>customSections := fold (store_put section_id) xs (customSections s),
       journal := journal s @ map (\<lambda>x. Put CustomSections (NumKey (section_id x))) xs\<rparr>"
  by (induction xs arbitrary: s) (simp_all add: saveCustomSection_def logged_def)

lemma fold_saveShoppingItem:
  "fold saveShoppingItem xs s =
     s\<lparr>shoppingList := fold (store_put shop_id) xs (shoppingList s),
       journal := journal s @ map (\<lambda>x. Put ShoppingList (NumKey (shop_id x))) xs\<rparr>"
  by (induction xs arbitrary: s) (simp_all add: saveShoppingItem_def logged_def)

lemma clearAllData_result:
  "clearAllData s =
     \<lparr>items = [], images = [], weeklyPlan = [], savedOutfits = [], customSections = [],
      shoppingList = [], trash = [], journal = journal s @ map Clear all_stores\<rparr>"
  by (cases s) (simp add: clearAllData_def all_stores_def logged_def)

lemmas import_folds =
  fold_saveImage fold_saveItem fold_saveWeeklyDay fold_saveOutfit fold_saveCustomSection
  fold_saveShoppingItem clearAllData_result

lemma import_records_db:
  assumes "version d = JNum 1"
  shows "import_records pf (Some d) s ls =
    (Inr True,
     \<lparr>items = fold (store_put item_id) (or_empty (doc_items d)) [],
      images = fold (store_put image_id) (or_empty (doc_images d)) [],
      weeklyPlan = fold (store_put day) (or_empty (doc_weeklyPlan d)) [],
      savedOutfits = fold (store_put outfit_id) (or_empty (doc_savedOutfits d)) [],
      customSections = fold (store_put section_id) (or_empty (doc_customSections d)) [],
      shoppingList = fold (store_put shop_id) (or_empty (doc_shoppingList d)) [],
      trash = [],
      journal = journal s @ map Clear all_stores
        @ map (\<lambda>i. Put Images (NumKey (image_id i))) (or_empty (doc_images d))
        @ map (\<lambda>i. Put Items (NumKey (item_id i))) (or_empty (doc_items d))
        @ map (\<lambda>p. Put WeeklyPlan (StrKey (day p))) (or_empty (doc_weeklyPlan d))
        @ map (\<lambda>x. Put SavedOutfits (NumKey (outfit_id x))) (or_empty (doc_savedOutfits d))
        @ map (\<lambda>x. Put CustomSections (NumKey (section_id x))) (or_empty (doc_customSections d))
        @ map (\<lambda>x. Put ShoppingList (NumKey (shop_id x))) (or_empty (doc_shoppingList d))\<rparr>,
     import_settings pf (doc_settings d) ls)"
  using assms by (simp add: import_records_def Let_def import_folds)



lemma import_loop_Stored:
  "map dec vs = map Stored rs \<Longrightarrow> import_loop dec save vs s = Some (Inr (), fold save rs s)"
  by (induction vs arbitrary: rs s) auto

lemma import_collection_reads:
  "reads_as dec v rs \<Longrightarrow> import_collection dec save v s = Some (Inr (), fold save rs s)"
  by (auto simp: reads_as_def import_collection_def import_loop_Stored split: sum.splits)

lemma and_then_Inr: "and_then (Some (Inr u, s)) f = f s"
  by (simp add: and_then_def)

lemma importAllData_reads:
  assumes "truthy data" and "get_prop data ''version'' = JNum 1"
    and "reads_as decode_image (get_prop data ''images'') imgs"
    and "reads_as decode_item (get_prop data ''items'') its"
    and "reads_as decode_day (get_prop data ''weeklyPlan'') days"
    and "reads_as decode_outfit (get_prop data ''savedOutfits'') outfits"
    and "reads_as decode_section (get_prop data ''customSections'') sections"
    and "reads_as decode_shoppingItem (get_prop data ''shoppingList'') entries"
  shows "importAllData pf data s ls =
     Some (import_records pf
       (Some \<lparr>version = JNum 1, exportDate = date, doc_items = Some its, doc_images = Some imgs,
              doc_weeklyPlan = Some days, doc_savedOutfits = Some outfits,
              doc_customSections = Some sections, doc_shoppingList = Some entries,
              doc_settings = settings_of (get_prop data ''settings'')\<rparr>) s ls)"
  using assms(1,2)
  by (simp add: importAllData_def import_records_def Let_def or_empty_def and_then_Inr
      import_collection_reads[OF assms(3)] import_collection_reads[OF assms(4)]
      import_collection_reads[OF assms(5)] import_collection_reads[OF assms(6)]
      import_collection_reads[OF assms(7)] import_collection_reads[OF assms(8)])

lemma those_Some: "those (map Some xs) = Some xs"
  by (induction xs) simp_all

lemma as_numbers_json: "as_numbers (JArr (map JNum xs)) = Some xs"
  by (simp add: those_Some comp_def)

lemma as_reference_json: "as_reference (reference_json r) = Some r"
  by (cases r) (simp_all add: reference_json_def)

lemma decode_image_json: "decode_image (image_json img) = Stored img"
  by (simp add: decode_image_def image_json_def)

lemma map_of_optional_json:
  "map_of (optional_json n f x) k = (if k = n then map_option f x else None)"
  by (cases x) (simp_all add: optional_json_def)

lemma item_json_fields:
  "only_fields [''id'', ''imageId'', ''category'', ''favorite'', ''laundry'', ''dateAdded'', ''deleted'',
        ''deletedDate'', ''originalCategory'']
     ((''id'', a) # (''imageId'', b) # (''category'', c) # (''favorite'', d) #
       (''laundry'', e) # (''dateAdded'', f) # optional_json ''deleted'' JBool x
           @ optional_json ''deletedDate'' JStr y
           @ optional_json ''originalCategory'' JStr z)"
  by (cases x; cases y; cases z) (simp_all add: only_fields_def optional_json_def)

lemma item_json_props:
  "get_prop (item_json it) ''id'' = JNum (item_id it)"
  "get_prop (item_json it) ''imageId'' = reference_json (imageId it)"
  "get_prop (item_json it) ''category'' = JStr (category it)"
  "get_prop (item_json it) ''favorite'' = JBool (favorite it)"
  "get_prop (item_json it) ''laundry'' = JBool (laundry it)"
  "get_prop (item_json it) ''dateAdded'' = JStr (dateAdded it)"
  "get_prop (item_json it) ''deleted'' = (case deleted it of None \<Rightarrow> JUndefined | Some b \<Rightarrow> JBool b)"
  "get_prop (item_json it) ''deletedDate'' = (case deletedDate it of None \<Rightarrow> JUndefined | Some b \<Rightarrow> JStr b)"
  "get_prop (item_json it) ''originalCategory'' =
     (case originalCategory it of None \<Rightarrow> JUndefined | Some b \<Rightarrow> JStr b)"
  by (simp_all add: item_json_def map_of_optional_json map_add_def split: option.splits)

lemma optional_read:
  "optional as_bool (case x of None \<Rightarrow> JUndefined | Some b \<Rightarrow> JBool b) = Some x"
  "optional as_string (case y of None \<Rightarrow> JUndefined | Some b \<Rightarrow> JStr b) = Some y"
  by (cases x; simp) (cases y; simp)

lemma read_item_json: "read_item (item_id it) (item_json it) = Some it"
  by (simp add: read_item_def item_json_props optional_read as_reference_json)

lemma decode_item_json: "decode_item (item_json it) = Stored it"
proof -
  have "decode_item (item_json it) =
      (case read_item (item_id it) (item_json it) of Some r \<Rightarrow> Stored r | None \<Rightarrow> Beyond)"
    unfolding decode_item_def decode_keyed_def item_json_props
    by (simp add: item_json_def item_json_fields)
  then show ?thesis by (simp add: read_item_json)
qed

lemma decode_day_json: "decode_day (day_json p) = Stored p"
  by (simp add: decode_day_def day_json_def only_fields_def read_day_def as_numbers_json
      del: as_numbers.simps)

lemma decode_outfit_json: "decode_outfit (outfit_json x) = Stored x"
  by (simp add: decode_outfit_def decode_keyed_def outfit_json_def only_fields_def read_outfit_def
      as_numbers_json del: as_numbers.simps)

lemma decode_section_json: "decode_section (section_json x) = Stored x"
  by (simp add: decode_section_def decode_keyed_def section_json_def only_fields_def
      read_section_def as_numbers_json del: as_numbers.simps)

lemma decode_shoppingItem_json: "decode_shoppingItem (shoppingItem_json x) = Stored x"
  by (simp add: decode_shoppingItem_def decode_keyed_def shoppingItem_json_def only_fields_def
      read_shoppingItem_def as_reference_json)

lemma reads_as_json:
  assumes "\<And>r. dec (enc r) = Stored r"
  shows "reads_as dec (JArr (map enc rs)) rs"
  by (simp add: reads_as_def assms)

lemma reads_as_missing: "reads_as dec JUndefined []"
  by (simp add: reads_as_def)

lemma settings_of_json: "settings_of (settings_json t) = Some t"
  by (simp add: settings_of_def settings_json_def)

lemma document_json_props:
  "truthy (document_json d)"
  "get_prop (document_json d) ''version'' = version d"
  "get_prop (document_json d) ''items'' =
     (case doc_items d of None \<Rightarrow> JUndefined | Some xs \<Rightarrow> JArr (map item_json xs))"
  "get_prop (document_json d) ''images'' =
     (case doc_images d of None \<Rightarrow> JUndefined | Some xs \<Rightarrow> JArr (map image_json xs))"
  "get_prop (document_json d) ''weeklyPlan'' =
     (case doc_weeklyPlan d of None \<Rightarrow> JUndefined | Some xs \<Rightarrow> JArr (map day_json xs))"
  "get_prop (document_json d) ''savedOutfits'' =
     (case doc_savedOutfits d of None \<Rightarrow> JUndefined | Some xs \<Rightarrow> JArr (map outfit_json xs))"
  "get_prop (document_json d) ''customSections'' =
     (case doc_customSections d of None \<Rightarrow> JUndefined | Some xs \<Rightarrow> JArr (map section_json xs))"
  "get_prop (document_json d) ''shoppingList'' =
     (case doc_shoppingList d of None \<Rightarrow> JUndefined | Some xs \<Rightarrow> JArr (map shoppingItem_json xs))"
  "get_prop (document_json d) ''settings'' =
     (case doc_settings d of None \<Rightarrow> JUndefined | Some t \<Rightarrow> settings_json t)"
  by (simp_all add: document_json_def map_of_optional_json map_add_def split: option.splits)

lemma reads_as_collection:
  assumes "\<And>r. dec (enc r) = Stored r"
  shows "reads_as dec (case xs of None \<Rightarrow> JUndefined | Some ys \<Rightarrow> JArr (map enc ys)) (or_empty xs)"
  by (cases xs) (simp_all add: or_empty_def reads_as_missing reads_as_json[OF assms])

lemma settings_of_document:
  "settings_of (get_prop (document_json d) ''settings'') = doc_settings d"
  by (cases "doc_settings d") (simp_all add: document_json_props settings_of_json, simp add: settings_of_def)

lemma or_empty_Some: "or_empty (Some xs) = xs"
  by (simp add: or_empty_def)

lemma importAllData_document_json:
  "importAllData pf (document_json d) s ls = Some (import_records pf (Some d) s ls)"
proof (cases "version d = JNum 1")
  case False
  then show ?thesis
    by (simp add: importAllData_def import_records_def document_json_props)
next
  case True
  have "importAllData pf (document_json d) s ls =
     Some (import_records pf
       (Some \<lparr>version = JNum 1, exportDate = exportDate d, doc_items = Some (or_empty (doc_items d)),
              doc_images = Some (or_empty (doc_images d)),
              doc_weeklyPlan = Some (or_empty (doc_weeklyPlan d)),
              doc_savedOutfits = Some (or_empty (doc_savedOutfits d)),
              doc_customSections = Some (or_empty (doc_customSections d)),
              doc_shoppingList = Some (or_empty (doc_shoppingList d)),
              doc_settings = settings_of (get_prop (document_json d) ''settings'')\<rparr>) s ls)"
    by (rule importAllData_reads)
       (simp_all add: document_json_props True reads_as_collection decode_image_json
         decode_item_json decode_day_json decode_outfit_json decode_section_json
         decode_shoppingItem_json)
  then show ?thesis
    by (simp add: import_records_db True or_empty_Some settings_of_document)
qed




















subsection \<open>The cached forecast\<close>

text \<open>
  Claim C9. With \<open>cached\<close> the decoded \<open>weatherCache\<close> setting and \<open>url\<close> the request
  the call would make: a cached value whose timestamp is less than 30 minutes
  (1 800 000 ms) old is answered from the cache, with no fetch and no write; when there is
  no cached value, or its timestamp is 30 minutes old or more, a fetch that succeeds is
  returned and stored under \<open>weatherCache\<close> with the new timestamp; when the fetch fails
  and a cached value exists, the stale payload is returned and nothing is written; only
  without a cached value does the failure reach the caller.
\<close>

theorem C9_fetchWeather_cache:
  assumes "getSetting pf ls ''weatherCache'' JNull = cached"
    and "(ToString pf (JNum lat), ToString pf (JNum lon),
          ToString pf (getSetting pf ls ''tempUnit'' (JStr ''fahrenheit''))) = url"
  shows "(\<forall>t. truthy cached \<and> get_prop cached ''timestamp'' = JNum t \<and> now1 - t < 30 * 60 * 1000 \<longrightarrow>
            fetchWeather pf fetch now1 now2 lat lon ls = (Inr (get_prop cached ''data''), ls, []))
       \<and> (\<forall>status data.
            (\<not> truthy cached \<or> (\<exists>t. get_prop cached ''timestamp'' = JNum t \<and> 30 * 60 * 1000 \<le> now1 - t))
            \<and> fetch url = Response True status (Some data) \<longrightarrow>
            fetchWeather pf fetch now1 now2 lat lon ls =
              (Inr data,
               setSetting pf ''weatherCache'' (JObj [(''data'', data), (''timestamp'', JNum now2)]) ls,
               [url]))
       \<and> (\<forall>t. truthy cached \<and> get_prop cached ''timestamp'' = JNum t \<and> 30 * 60 * 1000 \<le> now1 - t
              \<and> fetch_failed (fetch url) \<longrightarrow>
            fetchWeather pf fetch now1 now2 lat lon ls = (Inr (get_prop cached ''data''), ls, [url]))
       \<and> (\<not> truthy cached \<and> fetch url = Rejected \<longrightarrow>
            fetchWeather pf fetch now1 now2 lat lon ls = (Inl NetworkError, ls, [url]))"
proof -
  let ?fresh = "truthy cached \<and>
      (case ToNumber pf (get_prop cached ''timestamp'') of None \<Rightarrow> False | Some t \<Rightarrow> now1 - t < CACHE_DURATION)"
  have unfold: "fetchWeather pf fetch now1 now2 lat lon ls =
     (if ?fresh then (Inr (get_prop cached ''data''), ls, [])
      else (case fetch url of
              Rejected \<Rightarrow> (stale_or_throw cached NetworkError, ls, [url])
            | Response ok status body \<Rightarrow>
                if \<not> ok then (stale_or_throw cached (WeatherApiError status), ls, [url])
                else (case body of
                        None \<Rightarrow> (stale_or_throw cached BodySyntaxError, ls, [url])
                      | Some data \<Rightarrow>
                          (Inr data,
                           setSetting pf ''weatherCache'' (JObj [(''data'', data), (''timestamp'', JNum now2)]) ls,
                           [url]))))"
    unfolding fetchWeather_def Let_def assms ..
  have c1: "fetchWeather pf fetch now1 now2 lat lon ls = (Inr (get_prop cached ''data''), ls, [])"
    if "truthy cached" "get_prop cached ''timestamp'' = JNum t" "now1 - t < 30 * 60 * 1000" for t
    unfolding unfold using that by (simp add: CACHE_DURATION_def)
  have stale: "\<not> ?fresh"
    if "\<not> truthy cached \<or> (\<exists>t. get_prop cached ''timestamp'' = JNum t \<and> 30 * 60 * 1000 \<le> now1 - t)"
    using that by (auto simp: CACHE_DURATION_def)
  have c2: "fetchWeather pf fetch now1 now2 lat lon ls =
      (Inr data, setSetting pf ''weatherCache'' (JObj [(''data'', data), (''timestamp'', JNum now2)]) ls, [url])"
    if "\<not> truthy cached \<or> (\<exists>t. get_prop cached ''timestamp'' = JNum t \<and> 30 * 60 * 1000 \<le> now1 - t)"
      and "fetch url = Response True status (Some data)" for status data
    unfolding unfold using stale[OF that(1)] that(2) by simp
  have c3: "fetchWeather pf fetch now1 now2 lat lon ls = (Inr (get_prop cached ''data''), ls, [url])"
    if "truthy cached" "get_prop cached ''timestamp'' = JNum t" "30 * 60 * 1000 \<le> now1 - t"
      "fetch_failed (fetch url)" for t
  proof -
    have s: "\<not> ?fresh" using that(2,3) by (intro stale) blast
    show ?thesis
    proof (cases "fetch url")
      case Rejected
      then show ?thesis unfolding unfold using s that(1) by (simp add: stale_or_throw_def)
    next
      case (Response ok status body)
      then show ?thesis unfolding unfold using s that(1,4)
        by (cases body) (simp_all add: stale_or_throw_def)
    qed
  qed
  have c4: "fetchWeather pf fetch now1 now2 lat lon ls = (Inl NetworkError, ls, [url])"
    if "\<not> truthy cached" "fetch url = Rejected"
    unfolding unfold using that by (simp add: stale_or_throw_def)
  show ?thesis
    using c1 c2 c3 c4 by blast
qed

lemma cache_ls_eval:
  "getSetting js_platform cache_ls ''weatherCache'' JNull =
     JObj [(''data'', cache_payload), (''timestamp'', JNum 1767225600000)]"
  unfolding cache_payload_def by code_simp

lemma denton_url_eval:
  "(ToString js_platform (JNum 33.2148), ToString js_platform (JNum (- 97.1331)),
    ToString js_platform (getSetting js_platform cache_ls ''tempUnit'' (JStr ''fahrenheit''))) = denton_url"
  by code_simp

lemma denton_url_eval_empty:
  "(ToString js_platform (JNum 33.2148), ToString js_platform (JNum (- 97.1331)),
    ToString js_platform (getSetting js_platform Map.empty ''tempUnit'' (JStr ''fahrenheit''))) = denton_url"
  by code_simp

lemma fresh_text_eval:
  \<open>JSON_stringify js_platform (JObj [(''data'', fresh_payload), (''timestamp'', JNum 1767232800001)])
     = ''{"data":{"temp":75},"timestamp":1767232800001}''\<close>
  unfolding fresh_payload_def by code_simp

lemma weather_eval:
  \<open>fetchWeather js_platform net_up 1767225660000 1767225660001 33.2148 (- 97.1331) cache_ls =
     (Inr cache_payload, cache_ls, [])
   \<and> 1767225660000 - 1767225600000 < (30 * 60 * 1000 :: rat)
   \<and> fetchWeather js_platform net_up 1767232800000 1767232800001 33.2148 (- 97.1331) cache_ls =
     (Inr fresh_payload,
      setSetting js_platform ''weatherCache'' (JObj [(''data'', fresh_payload), (''timestamp'', JNum 1767232800001)]) cache_ls,
      [denton_url])
   \<and> setSetting js_platform ''weatherCache'' (JObj [(''data'', fresh_payload), (''timestamp'', JNum 1767232800001)]) cache_ls
        ''wardrobe_weatherCache'' = Some ''{"data":{"temp":75},"timestamp":1767232800001}''
   \<and> (30 * 60 * 1000 :: rat) \<le> 1767232800000 - 1767225600000
   \<and> fetchWeather js_platform net_down 1767232800000 1767232800001 33.2148 (- 97.1331) cache_ls =
     (Inr cache_payload, cache_ls, [denton_url])
   \<and> fetchWeather js_platform net_up 1767232800000 1767232800001 33.2148 (- 97.1331) Map.empty =
     (Inr fresh_payload,
      setSetting js_platform ''weatherCache'' (JObj [(''data'', fresh_payload), (''timestamp'', JNum 1767232800001)]) Map.empty,
      [denton_url])
   \<and> fetchWeather js_platform net_down 1767232800000 1767232800001 33.2148 (- 97.1331) Map.empty =
     (Inl NetworkError, Map.empty, [denton_url])\<close>
proof -
  have e: "getSetting js_platform Map.empty ''weatherCache'' JNull = JNull"
    by (simp add: getSetting_def)
  have t: "setSetting js_platform ''weatherCache'' (JObj [(''data'', fresh_payload), (''timestamp'', JNum 1767232800001)]) cache_ls
        ''wardrobe_weatherCache'' = Some (JSON_stringify js_platform (JObj [(''data'', fresh_payload), (''timestamp'', JNum 1767232800001)]))"
    by (simp add: setSetting_def)
  show ?thesis
    unfolding fetchWeather_def Let_def cache_ls_eval denton_url_eval denton_url_eval_empty e t fresh_text_eval
    by (simp add: CACHE_DURATION_def net_up_def net_down_def stale_or_throw_def)
qed

text \<open>
  One minute after the stamp the cache answers; two hours after it the forecast is
  fetched and stored, or, with the network down, the stale forecast is returned; with
  no cache the forecast is fetched, or the error is thrown.
\<close>

theorem C9_fetchWeather_cache_witness:
  \<open>fetchWeather js_platform net_up 1767225660000 1767225660001 33.2148 (- 97.1331) cache_ls =
     (Inr cache_payload, cache_ls, [])
   \<and> 1767225660000 - 1767225600000 < (30 * 60 * 1000 :: rat)
   \<and> fetchWeather js_platform net_up 1767232800000 1767232800001 33.2148 (- 97.1331) cache_ls =
     (Inr fresh_payload,
      setSetting js_platform ''weatherCache'' (JObj [(''data'', fresh_payload), (''timestamp'', JNum 1767232800001)]) cache_ls,
      [denton_url])
   \<and> setSetting js_platform ''weatherCache'' (JObj [(''data'', fresh_payload), (''timestamp'', JNum 1767232800001)]) cache_ls
        ''wardrobe_weatherCache'' = Some ''{"data":{"temp":75},"timestamp":1767232800001}''
   \<and> (30 * 60 * 1000 :: rat) \<le> 1767232800000 - 1767225600000
   \<and> fetchWeather js_platform net_down 1767232800000 1767232800001 33.2148 (- 97.1331) cache_ls =
     (Inr cache_payload, cache_ls, [denton_url])
   \<and> fetchWeather js_platform net_up 1767232800000 1767232800001 33.2148 (- 97.1331) Map.empty =
     (Inr fresh_payload,
      setSetting js_platform ''weatherCache'' (JObj [(''data'', fresh_payload), (''timestamp'', JNum 1767232800001)]) Map.empty,
      [denton_url])
   \<and> fetchWeather js_platform net_down 1767232800000 1767232800001 33.2148 (- 97.1331) Map.empty =
     (Inl NetworkError, Map.empty, [denton_url])\<close>
  using C9_fetchWeather_cache[OF cache_ls_eval denton_url_eval, of 1767225660000 net_up 1767225660001]
    C9_fetchWeather_cache[OF cache_ls_eval denton_url_eval, of 1767232800000 net_up 1767232800001]
    C9_fetchWeather_cache[OF cache_ls_eval denton_url_eval, of 1767232800000 net_down 1767232800001]
  by - (rule weather_eval)

subsection \<open>Export followed by import\<close>

lemma shopping_backup_eval:
  "shopping_backup =
     \<lparr>version = JNum 1, exportDate = now0, doc_items = Some [], doc_images = Some [],
      doc_weeklyPlan = Some [], doc_savedOutfits = Some [], doc_customSections = Some [],
      doc_shoppingList = Some [boots],
      doc_settings = Some \<lparr>userName = JNull, theme = JNull, location = JNull, tempUnit = JNull\<rparr>\<rparr>"
  by (simp add: shopping_backup_def exportAllData_def shopping_db_def empty_db_def getAllItems_def
      getWeeklyPlan_def getAllSavedOutfits_def getAllCustomSections_def getAllShoppingItems_def
      getSetting_def)

lemma insort_key_last:
  "\<forall>y\<in>set acc. kp y < kp x \<Longrightarrow> insort_key kp x acc = acc @ [x]"
  by (induction acc) auto

lemma store_put_last:
  assumes "\<forall>y\<in>set acc. kp y < kp x"
  shows "store_put kp x acc = acc @ [x]"
proof -
  have "store_delete kp (kp x) acc = acc"
    unfolding store_delete_def filter_id_conv using assms by auto
  then show ?thesis
    by (simp add: store_put_def insort_key_last[OF assms])
qed

lemma fold_store_put_sorted:
  "sorted (map kp (acc @ xs)) \<Longrightarrow> distinct (map kp (acc @ xs)) \<Longrightarrow>
   fold (store_put kp) xs acc = acc @ xs"
proof (induction xs arbitrary: acc)
  case Nil
  then show ?case by simp
next
  case (Cons x xs)
  have "\<forall>y\<in>set acc. kp y < kp x"
  proof
    fix y assume y: "y \<in> set acc"
    with Cons.prems(1) have "kp y \<le> kp x" by (simp add: sorted_append)
    moreover have "kp x \<notin> kp ` set acc" using Cons.prems(2) by simp
    with y have "kp y \<noteq> kp x" by (metis imageI)
    ultimately show "kp y < kp x" by simp
  qed
  then have "store_put kp x acc = acc @ [x]" by (rule store_put_last)
  moreover have "fold (store_put kp) xs (acc @ [x]) = (acc @ [x]) @ xs"
    using Cons.prems by (intro Cons.IH) simp_all
  ultimately show ?case by simp
qed

lemma store_get_fold_put:
  "store_get kp k (fold (store_put kp) xs acc) =
     (case find (\<lambda>r. kp r = k) (rev xs) of Some r \<Rightarrow> Some r | None \<Rightarrow> store_get kp k acc)"
  by (induction xs arbitrary: acc) (auto simp: store_get_put find_append_case split: option.splits)

lemma export_images_sound:
  "r \<in> set (export_images its s) \<Longrightarrow> getImage (image_id r) s = Some (image_data r)"
  by (induction its) (auto split: option.splits if_splits)

lemma export_images_complete:
  "it \<in> set its \<Longrightarrow> imageId it = Some k \<Longrightarrow> k \<noteq> 0 \<Longrightarrow> getImage k s = Some d \<Longrightarrow>
   \<lparr>image_id = k, image_data = d\<rparr> \<in> set (export_images its s)"
  by (induction its) (auto split: option.splits if_splits)

lemma getImage_reimported:
  assumes "it \<in> set its" and "imageId it = Some k" and "k \<noteq> 0"
  shows "(case store_get image_id k (fold (store_put image_id) (export_images its s) []) of
            None \<Rightarrow> None
          | Some r \<Rightarrow> if image_data r \<noteq> [] then Some (image_data r) else None) = getImage k s"
proof (cases "getImage k s")
  case None
  have "\<forall>r\<in>set (export_images its s). image_id r \<noteq> k"
    using export_images_sound[of _ its s] None by auto
  then have "find (\<lambda>r. image_id r = k) (rev (export_images its s)) = None"
    by (simp add: find_None_iff)
  then show ?thesis using None
    unfolding store_get_fold_put by (simp add: store_get_def)
next
  case (Some d)
  then have nonempty: "d \<noteq> []"
    by (auto simp: getImage_def split: option.splits if_splits)
  from export_images_complete[OF assms Some]
  obtain r where "find (\<lambda>r. image_id r = k) (rev (export_images its s)) = Some r"
    by (cases "find (\<lambda>r. image_id r = k) (rev (export_images its s))")
       (auto simp: find_None_iff)
  moreover from this have "r \<in> set (export_images its s)" and "image_id r = k"
    by (auto dest: find_SomeD)
  moreover from this have "image_data r = d"
    using export_images_sound[of r its s] Some by simp
  ultimately show ?thesis using Some nonempty
    by (simp add: store_get_fold_put)
qed

lemma fold_store_put_keyed: "keyed kp rs \<Longrightarrow> fold (store_put kp) rs [] = rs"
  using fold_store_put_sorted[of kp "[]" rs] by (simp add: keyed_def)

text \<open>
  What the round trip does give back, whatever store the backup is imported into: the
  items, the weekly plan, the saved outfits, the custom sections and the shopping list
  as they were, an empty trash, and the image of every item whose \<open>imageId\<close> is truthy.
\<close>

lemma export_import_roundtrip:
  assumes "keyed item_id (items s)" and "keyed day (weeklyPlan s)" and "keyed outfit_id (savedOutfits s)"
    and "keyed section_id (customSections s)" and "keyed shop_id (shoppingList s)"
  shows "\<exists>s' ls'. import_records pf (Some (exportAllData pf now s ls)) s0 ls0 = (Inr True, s', ls')
      \<and> items s' = items s \<and> weeklyPlan s' = weeklyPlan s \<and> savedOutfits s' = savedOutfits s
      \<and> customSections s' = customSections s \<and> shoppingList s' = shoppingList s \<and> trash s' = []
      \<and> (\<forall>it\<in>set (items s). \<forall>k. imageId it = Some k \<and> k \<noteq> 0 \<longrightarrow> getImage k s' = getImage k s)"
proof -
  let ?d = "exportAllData pf now s ls"
  have v: "version ?d = JNum 1" by (simp add: exportAllData_def)
  have img: "getImage k \<lparr>items = a, images = fold (store_put image_id) (export_images (items s) s) [],
        weeklyPlan = b, savedOutfits = c, customSections = d, shoppingList = e, trash = f, journal = g\<rparr>
      = getImage k s"
    if "it \<in> set (items s)" "imageId it = Some k" "k \<noteq> 0" for it k a b c d e f g
    using getImage_reimported[OF that, of s] by (simp add: getImage_def)
  show ?thesis
    unfolding import_records_db[OF v]
    using assms img
    by (simp add: exportAllData_def or_empty_def fold_store_put_keyed getAllItems_def getWeeklyPlan_def
        getAllSavedOutfits_def getAllCustomSections_def getAllShoppingItems_def)
qed

lemma shopping_backup_json_eval:
  "importAllData js_platform (document_json shopping_backup) empty_db Map.empty =
     Some (Inr True, reimported_db, Map.empty)"
proof -
  have "import_records js_platform (Some shopping_backup) empty_db Map.empty =
      (Inr True, reimported_db, Map.empty)"
    unfolding reimported_db_def shopping_backup_eval
    by (simp add: import_records_def Let_def import_settings_def import_setting_def)
  then show ?thesis
    by (simp add: importAllData_document_json)
qed

text \<open>
  Claim C6 says that importing an export gives back an equivalent store, the images of
  shopping entries included. The export collects images by walking the wardrobe items
  only: the backup of \<open>shopping_db\<close> carries the entry and no image, and after the import
  (of the document as records, and of the document as the value a backup file holds) the
  entry refers to an image that no longer exists.
\<close>

theorem C6_export_omits_shopping_images:
  "shoppingList shopping_db = [boots] \<and> shop_imageId boots = Some 1767225600000
   \<and> getImage 1767225600000 shopping_db = Some ''data:image/jpeg;base64,BBBB''
   \<and> doc_shoppingList shopping_backup = Some [boots]
   \<and> doc_images shopping_backup = Some []
   \<and> fst (import_records js_platform (Some shopping_backup) empty_db Map.empty) = Inr True
   \<and> importAllData js_platform (document_json shopping_backup) empty_db Map.empty =
       Some (Inr True, reimported_db, Map.empty)
   \<and> shoppingList reimported_db = [boots]
   \<and> images reimported_db = []
   \<and> getImage 1767225600000 reimported_db = None"
  unfolding shopping_backup_json_eval
  unfolding reimported_db_def shopping_backup_eval
  by (simp add: import_records_def Let_def import_folds or_empty_def shopping_db_def empty_db_def
      boots_def boots_image_def getImage_def store_get_def store_put_def store_delete_def
      all_stores_def import_settings_def import_setting_def saveShoppingItem_def logged_def)

end
